theory Spec2Isabelle
  imports Main
begin

section \<open>Instants and the date-fns operations the code calls\<close>

text \<open>
  A JavaScript \<open>Date\<close> holding a valid time is an integer number of milliseconds since
  the epoch; the model uses \<open>int\<close> for it. The functions below are the operations of
  the date-fns library that the components import: \<open>differenceInMinutes\<close> divides the
  millisecond difference by 60000 and truncates toward zero, \<open>isAfter\<close> and
  \<open>isBefore\<close> are the strict comparisons, \<open>addMinutes\<close> adds whole minutes.
  Every read of the clock (\<open>new Date()\<close>) is an explicit argument \<open>now\<close>.
  The times stored on a tag and the clock are valid instants; a missing \<open>readyTime\<close> of
  a tag reads as an invalid date (\<open>None\<close>), and every comparison with it is false.

  A \<open>Date\<close> the resolver computes is a \<open>jsdate\<close>: constructing a date from a time value
  beyond 8.64e15 milliseconds on either side of the epoch gives the invalid date, and so
  does any operation on an invalid date. Within the range the arithmetic on time values
  is exact.
\<close>

type_synonym instant = int

definition MILLISECONDS_IN_MINUTE :: int where
  "MILLISECONDS_IN_MINUTE = 60000"

definition trunc_div :: "int \<Rightarrow> int \<Rightarrow> int" where
  "trunc_div a b = (if 0 \<le> a then a div b else - ((- a) div b))"

definition differenceInMinutes :: "instant \<Rightarrow> instant \<Rightarrow> int" where
  "differenceInMinutes dateLeft dateRight =
     trunc_div (dateLeft - dateRight) MILLISECONDS_IN_MINUTE"

definition isAfter :: "instant \<Rightarrow> instant \<Rightarrow> bool" where
  "isAfter date dateToCompare = (dateToCompare < date)"

definition isBefore :: "instant \<Rightarrow> instant \<Rightarrow> bool" where
  "isBefore date dateToCompare = (date < dateToCompare)"

datatype jsdate = Date instant | InvalidDate

definition MAX_TIME :: int where
  "MAX_TIME = 8640000000000000"

definition valid_time :: "int \<Rightarrow> bool" where
  "valid_time t = (- MAX_TIME \<le> t \<and> t \<le> MAX_TIME)"

text \<open>\<open>new Date(t)\<close> for a time value \<open>t\<close>.\<close>

definition new_Date :: "int \<Rightarrow> jsdate" where
  "new_Date t = (if valid_time t then Date t else InvalidDate)"

fun addMinutes :: "jsdate \<Rightarrow> int \<Rightarrow> jsdate" where
  "addMinutes (Date t) amount = new_Date (t + amount * MILLISECONDS_IN_MINUTE)"
| "addMinutes InvalidDate amount = InvalidDate"

text \<open>Comparing the clock with a computed date: false against the invalid date.\<close>

fun now_before :: "instant \<Rightarrow> jsdate \<Rightarrow> bool" where
  "now_before now (Date t) = (now < t)"
| "now_before now InvalidDate = False"

fun now_at_or_after :: "instant \<Rightarrow> jsdate \<Rightarrow> bool" where
  "now_at_or_after now (Date t) = (t \<le> now)"
| "now_at_or_after now InvalidDate = False"

text \<open>
  The calendar operations \<open>addDays\<close>, \<open>startOfDay\<close> and \<open>endOfDay\<close> of date-fns work
  in the local time zone of the browser, which the repository does not fix: they are a
  parameter of the resolver. \<open>utc_calendar\<close> is the instance for a browser whose zone is
  UTC.
\<close>

record calendar =
  addDays :: "jsdate \<Rightarrow> int \<Rightarrow> jsdate"
  startOfDay :: "jsdate \<Rightarrow> jsdate"
  endOfDay :: "jsdate \<Rightarrow> jsdate"

definition MILLISECONDS_IN_DAY :: int where
  "MILLISECONDS_IN_DAY = 86400000"

definition utc_calendar :: calendar where
  "utc_calendar =
     \<lparr> addDays = (\<lambda>d n. case d of
                        Date t \<Rightarrow> new_Date (t + n * MILLISECONDS_IN_DAY)
                      | InvalidDate \<Rightarrow> InvalidDate),
       startOfDay = (\<lambda>d. case d of
                        Date t \<Rightarrow> new_Date (t - t mod MILLISECONDS_IN_DAY)
                      | InvalidDate \<Rightarrow> InvalidDate),
       endOfDay = (\<lambda>d. case d of
                        Date t \<Rightarrow> new_Date (t - t mod MILLISECONDS_IN_DAY
                                              + (MILLISECONDS_IN_DAY - 1))
                      | InvalidDate \<Rightarrow> InvalidDate) \<rparr>"

text \<open>Template literals print a number in decimal.\<close>

definition digit_char :: "nat \<Rightarrow> char" where
  "digit_char d = ''0123456789'' ! d"

function decimal :: "nat \<Rightarrow> string" where
  "decimal n = (if 10 \<le> n then decimal (n div 10) else []) @ [digit_char (n mod 10)]"
  by pat_completeness auto
termination
  by (relation "measure (\<lambda>n. n)") auto

declare decimal.simps [simp del]

definition show_number :: "int \<Rightarrow> string" where
  "show_number i = (if 0 \<le> i then decimal (nat i) else CHR ''-'' # decimal (nat (- i)))"

text \<open>A missing (\<open>undefined\<close>) string printed inside a template literal.\<close>

definition js_str :: "string option \<Rightarrow> string" where
  "js_str s = (case s of None \<Rightarrow> ''undefined'' | Some v \<Rightarrow> v)"

section \<open>Data model\<close>

text \<open>
  Records carry a suffix on every field (\<open>_tag\<close>, \<open>_prod\<close>, \<open>_ntf\<close>, \<open>_form\<close>), since
  the source reuses \<open>id\<close>, \<open>status\<close> and \<open>name\<close> across its interfaces. The tag is the
  object written by \<open>handleSave\<close> of the tag form, with the joined names the dashboards
  read; its times are instants, \<open>readyTime\<close> is optional as in the \<open>MRDTag\<close> interface.
\<close>

datatype lifecycle = active | used | discarded

datatype severity = critical | warning

record MRDTag =
  id_tag :: string
  productId_tag :: string
  locationId_tag :: string
  userId_tag :: string
  quantity_tag :: int
  batchNumber_tag :: string
  notes_tag :: string
  madeTime_tag :: instant
  readyTime_tag :: "instant option"
  discardTime_tag :: instant
  status_tag :: lifecycle
  isPrinted_tag :: string
  updatedAt_tag :: "instant option"
  productName_tag :: "string option"
  locationName_tag :: "string option"

record Product =
  id_prod :: string
  name_prod :: string
  category_prod :: string
  readyTimeMinutes_prod :: int
  discardTimeMinutes_prod :: int
  timeType_prod :: string
  dayOffset_prod :: "int option"
  storageRequirements_prod :: string
  allergens_prod :: string
  isActive_prod :: string
  excludeFromDashboard_prod :: string

record User =
  id_user :: string
  name_user :: string
  role_user :: string

record Location =
  id_loc :: string
  name_loc :: string

record NotificationData =
  id_ntf :: string
  type_ntf :: severity
  title_ntf :: string
  message_ntf :: string
  tagId_ntf :: "string option"
  productName_ntf :: "string option"
  locationName_ntf :: "string option"
  timeRemaining_ntf :: "string option"
  timestamp_ntf :: instant

section \<open>Time-policy resolver: \<open>calculateTimes\<close> of the tag form\<close>

text \<open>
  \<open>calculateTimes\<close> reads the selected product and the form's made time from its
  closure; both are arguments here. It returns the pair
  \<open>{ readyTime, discardTime }\<close>, each a date (possibly the invalid one) or \<open>null\<close>.
  \<open>madeTime\<close> is the date \<open>new Date(formData.madeTime)\<close>. \<open>dayOffset || 0\<close> reads a
  missing offset as 0.
\<close>

definition calculateTimes ::
  "calendar \<Rightarrow> Product option \<Rightarrow> jsdate \<Rightarrow> jsdate option \<times> jsdate option" where
  "calculateTimes cal selectedProduct madeTime =
     (case selectedProduct of
        None \<Rightarrow> (None, None)
      | Some p \<Rightarrow>
          if timeType_prod p = ''hours'' then
            (Some (addMinutes madeTime (readyTimeMinutes_prod p)),
             Some (addMinutes madeTime (discardTimeMinutes_prod p)))
          else if timeType_prod p = ''start_of_day'' then
            (let targetDay = addDays cal madeTime
                   (case dayOffset_prod p of None \<Rightarrow> 0 | Some k \<Rightarrow> k)
             in (Some (startOfDay cal targetDay), Some (startOfDay cal targetDay)))
          else if timeType_prod p = ''end_of_day'' then
            (let targetDay = addDays cal madeTime
                   (case dayOffset_prod p of None \<Rightarrow> 0 | Some k \<Rightarrow> k)
             in (Some (endOfDay cal targetDay), Some (endOfDay cal targetDay)))
          else (None, None))"

section \<open>Lifecycle classifier: \<open>getTagStatus\<close>\<close>

record verdict =
  status_v :: string
  label_v :: string
  color_v :: string

text \<open>The classifier of the active-tags table (four outcomes).\<close>

definition getTagStatus :: "MRDTag \<Rightarrow> instant \<Rightarrow> verdict" where
  "getTagStatus tag now =
     (let discardTime = discardTime_tag tag;
          minutesToDiscard = differenceInMinutes discardTime now
      in if isAfter now discardTime then
           \<lparr> status_v = ''expired'', label_v = ''EXPIRED'', color_v = ''destructive'' \<rparr>
         else if minutesToDiscard \<le> 30 then
           \<lparr> status_v = ''expiring'', label_v = ''EXPIRING SOON'', color_v = ''secondary'' \<rparr>
         else if (case readyTime_tag tag of None \<Rightarrow> False | Some readyTime \<Rightarrow> isBefore now readyTime) then
           \<lparr> status_v = ''preparing'', label_v = ''PREPARING'', color_v = ''outline'' \<rparr>
         else
           \<lparr> status_v = ''ready'', label_v = ''READY'', color_v = ''default'' \<rparr>)"

text \<open>
  The classifier of the overview page (three outcomes), which decides on the truncated
  minute count alone. Its third field, \<open>text\<close> in the source, is \<open>label_v\<close> here.
\<close>

definition getTagStatus_overview :: "MRDTag \<Rightarrow> instant \<Rightarrow> verdict" where
  "getTagStatus_overview tag now =
     (let minutesUntilDiscard = differenceInMinutes (discardTime_tag tag) now
      in if minutesUntilDiscard \<le> 0 then
           \<lparr> status_v = ''expired'', label_v = ''EXPIRED'', color_v = ''destructive'' \<rparr>
         else if minutesUntilDiscard \<le> 30 then
           \<lparr> status_v = ''expiring'',
             label_v = show_number minutesUntilDiscard @ ''m left'',
             color_v = ''secondary'' \<rparr>
         else
           \<lparr> status_v = ''fresh'',
             label_v = show_number (minutesUntilDiscard div 60) @ ''h ''
                       @ show_number (minutesUntilDiscard mod 60) @ ''m left'',
             color_v = ''default'' \<rparr>)"

text \<open>The status line of the tag form's preview.\<close>

definition getStatusText :: "jsdate option \<Rightarrow> jsdate option \<Rightarrow> instant \<Rightarrow> string" where
  "getStatusText readyTime discardTime now =
     (case (readyTime, discardTime) of
        (Some r, Some d) \<Rightarrow>
          if now_before now r then ''Preparing''
          else if now_at_or_after now r \<and> now_before now d then ''Ready''
          else ''Expired''
      | _ \<Rightarrow> ''Invalid'')"

definition example_tag :: "string \<Rightarrow> instant \<Rightarrow> instant \<Rightarrow> instant \<Rightarrow> MRDTag" where
  "example_tag i made ready discard =
     \<lparr> id_tag = i, productId_tag = ''prod_1'', locationId_tag = ''loc_1'',
       userId_tag = ''user_1'', quantity_tag = 1, batchNumber_tag = '''', notes_tag = '''',
       madeTime_tag = made, readyTime_tag = Some ready, discardTime_tag = discard,
       status_tag = active, isPrinted_tag = ''0'', updatedAt_tag = None,
       productName_tag = Some ''Soup'', locationName_tag = Some ''Kitchen'' \<rparr>"

section \<open>The external store and the handlers that write tags\<close>

text \<open>
  The store (\<open>blink.db.mrdTags\<close>) is outside the repository. Its table is a list of
  rows; \<open>update id patch\<close> overwrites, in the row with that id, exactly the fields the
  patch names; \<open>create\<close> appends a row; \<open>list\<close> with \<open>where status = active\<close> and
  \<open>orderBy discardTime asc\<close> filters and sorts. A call to the store may throw: each
  handler takes a flag \<open>db_ok\<close> saying whether its call succeeds, and on failure runs
  its \<open>catch\<close> branch, which only logs.
\<close>

record tag_patch =
  productId_patch :: "string option"
  locationId_patch :: "string option"
  userId_patch :: "string option"
  quantity_patch :: "int option"
  batchNumber_patch :: "string option"
  notes_patch :: "string option"
  madeTime_patch :: "instant option"
  readyTime_patch :: "instant option"
  discardTime_patch :: "instant option"
  status_patch :: "lifecycle option"
  isPrinted_patch :: "string option"
  updatedAt_patch :: "instant option"

definition empty_patch :: tag_patch where
  "empty_patch =
     \<lparr> productId_patch = None, locationId_patch = None, userId_patch = None,
       quantity_patch = None, batchNumber_patch = None, notes_patch = None,
       madeTime_patch = None, readyTime_patch = None, discardTime_patch = None,
       status_patch = None, isPrinted_patch = None, updatedAt_patch = None \<rparr>"

definition or_else :: "'a option \<Rightarrow> 'a \<Rightarrow> 'a" where
  "or_else new old = (case new of None \<Rightarrow> old | Some v \<Rightarrow> v)"

definition apply_patch :: "tag_patch \<Rightarrow> MRDTag \<Rightarrow> MRDTag" where
  "apply_patch p t =
     t \<lparr> productId_tag := or_else (productId_patch p) (productId_tag t),
         locationId_tag := or_else (locationId_patch p) (locationId_tag t),
         userId_tag := or_else (userId_patch p) (userId_tag t),
         quantity_tag := or_else (quantity_patch p) (quantity_tag t),
         batchNumber_tag := or_else (batchNumber_patch p) (batchNumber_tag t),
         notes_tag := or_else (notes_patch p) (notes_tag t),
         madeTime_tag := or_else (madeTime_patch p) (madeTime_tag t),
         readyTime_tag :=
           (case readyTime_patch p of None \<Rightarrow> readyTime_tag t | Some r \<Rightarrow> Some r),
         discardTime_tag := or_else (discardTime_patch p) (discardTime_tag t),
         status_tag := or_else (status_patch p) (status_tag t),
         isPrinted_tag := or_else (isPrinted_patch p) (isPrinted_tag t),
         updatedAt_tag :=
           (case updatedAt_patch p of None \<Rightarrow> updatedAt_tag t | Some u \<Rightarrow> Some u) \<rparr>"

definition db_update :: "string \<Rightarrow> tag_patch \<Rightarrow> MRDTag list \<Rightarrow> MRDTag list" where
  "db_update i p db = map (\<lambda>t. if id_tag t = i then apply_patch p t else t) db"

definition db_create :: "MRDTag \<Rightarrow> MRDTag list \<Rightarrow> MRDTag list" where
  "db_create t db = db @ [t]"

definition db_list_active :: "MRDTag list \<Rightarrow> MRDTag list" where
  "db_list_active db = sort_key discardTime_tag (filter (\<lambda>t. status_tag t = active) db)"

text \<open>\<open>handleDiscardTag\<close> of the active-tags table; \<open>confirmed\<close> is the answer to its dialog.\<close>

definition handleDiscardTag ::
  "bool \<Rightarrow> bool \<Rightarrow> string \<Rightarrow> instant \<Rightarrow> MRDTag list \<Rightarrow> MRDTag list" where
  "handleDiscardTag confirmed db_ok tagId now db =
     (if \<not> confirmed then db
      else if db_ok then
        db_update tagId
          (empty_patch \<lparr> status_patch := Some discarded, updatedAt_patch := Some now \<rparr>) db
      else db)"

text \<open>\<open>handlePrint\<close> of the tag form, on the tag shown in the preview.\<close>

definition handlePrint :: "bool \<Rightarrow> MRDTag option \<Rightarrow> MRDTag list \<Rightarrow> MRDTag list" where
  "handlePrint db_ok previewTag db =
     (case previewTag of
        None \<Rightarrow> db
      | Some t \<Rightarrow>
          if db_ok then
            db_update (id_tag t) (empty_patch \<lparr> isPrinted_patch := Some ''1'' \<rparr>) db
          else db)"

text \<open>
  \<open>handleSave\<close> of the tag form: the only place that writes \<open>readyTime\<close> and
  \<open>discardTime\<close>, from \<open>calculateTimes\<close> on the selected product. The joined names
  are not part of what the form writes. \<open>madeTime_form\<close> is the form's made time as
  \<open>new Date\<close> reads it. An invalid date is an object, hence passes the guard
  \<open>!readyTime || !discardTime\<close>; \<open>toISOString\<close> then throws on it inside the \<open>try\<close>,
  and nothing is created.
\<close>

record tag_form =
  productId_form :: string
  locationId_form :: string
  quantity_form :: int
  batchNumber_form :: string
  notes_form :: string
  madeTime_form :: jsdate

definition handleSave_tag ::
  "calendar \<Rightarrow> bool \<Rightarrow> Product list \<Rightarrow> User option \<Rightarrow> tag_form \<Rightarrow> instant
     \<Rightarrow> MRDTag list \<Rightarrow> MRDTag list" where
  "handleSave_tag cal db_ok products user formData now db =
     (let selectedProduct = find (\<lambda>p. id_prod p = productId_form formData) products
      in case (selectedProduct, calculateTimes cal selectedProduct (madeTime_form formData)) of
           (Some p, Some readyTime, Some discardTime) \<Rightarrow>
             (case (readyTime, discardTime, madeTime_form formData) of
                (Date ready, Date discard, Date made) \<Rightarrow>
                  if db_ok then
                    db_create
                      \<lparr> id_tag = ''tag_'' @ show_number now,
                        productId_tag = productId_form formData,
                        locationId_tag = locationId_form formData,
                        userId_tag = (case user of None \<Rightarrow> [] | Some u \<Rightarrow> id_user u),
                        quantity_tag = quantity_form formData,
                        batchNumber_tag = batchNumber_form formData,
                        notes_tag = notes_form formData,
                        madeTime_tag = made,
                        readyTime_tag = Some ready,
                        discardTime_tag = discard,
                        status_tag = active,
                        isPrinted_tag = ''0'',
                        updatedAt_tag = None,
                        productName_tag = None,
                        locationName_tag = None \<rparr> db
                  else db
              | _ \<Rightarrow> db)
         | _ \<Rightarrow> db)"

section \<open>Product save: \<open>handleSave\<close> of the product form\<close>

record product_form =
  name_form :: string
  category_form :: string
  readyTimeHours_form :: int
  readyTimeMinutes_form :: int
  discardTimeHours_form :: int
  discardTimeMinutes_form :: int
  timeType_form :: string
  dayOffset_form :: int
  storageRequirements_form :: string
  allergens_form :: string
  isActive_form :: bool
  excludeFromDashboard_form :: bool

definition productData :: "string \<Rightarrow> product_form \<Rightarrow> Product" where
  "productData i formData =
     \<lparr> id_prod = i,
       name_prod = name_form formData,
       category_prod = category_form formData,
       readyTimeMinutes_prod = readyTimeHours_form formData * 60 + readyTimeMinutes_form formData,
       discardTimeMinutes_prod =
         discardTimeHours_form formData * 60 + discardTimeMinutes_form formData,
       timeType_prod = timeType_form formData,
       dayOffset_prod = Some (dayOffset_form formData),
       storageRequirements_prod = storageRequirements_form formData,
       allergens_prod = allergens_form formData,
       isActive_prod = (if isActive_form formData then ''1'' else ''0''),
       excludeFromDashboard_prod = (if excludeFromDashboard_form formData then ''1'' else ''0'') \<rparr>"

text \<open>
  The product table after \<open>handleSave\<close>: an edited product is overwritten under its own
  id, a new one is created under \<open>prod_\<close> and the clock reading. The second component
  says whether the save went through (\<open>False\<close>: the store threw and the error was
  logged). Nothing in the handler inspects the offsets.
\<close>

definition handleSave_product ::
  "bool \<Rightarrow> Product option \<Rightarrow> product_form \<Rightarrow> instant \<Rightarrow> Product list
     \<Rightarrow> Product list \<times> bool" where
  "handleSave_product db_ok editingProduct formData now products =
     (if \<not> db_ok then (products, False)
      else case editingProduct of
             Some e \<Rightarrow>
               (map (\<lambda>p. if id_prod p = id_prod e then productData (id_prod p) formData else p)
                  products, True)
           | None \<Rightarrow> (products @ [productData (''prod_'' @ show_number now) formData], True))"

section \<open>Alert overlay: choosing the notification to show\<close>

text \<open>
  Both versions of the notification component keep the same local state and run the
  same effect whenever the notification list or the current notification changes. The
  field \<open>soundLog\<close> is not in the source: it records, in order, the id of the
  notification for which \<open>playNotificationSound\<close> was called.
\<close>

record overlay =
  currentNotification :: "NotificationData option"
  isVisible :: bool
  soundLog :: "string list"

definition initial_overlay :: overlay where
  "initial_overlay = \<lparr> currentNotification = None, isVisible = False, soundLog = [] \<rparr>"

text \<open>\<open>criticalNotifications[0] || warningNotifications[0]\<close>\<close>

definition nextNotification :: "NotificationData list \<Rightarrow> NotificationData option" where
  "nextNotification ns =
     (let criticalNotifications = filter (\<lambda>n. type_ntf n = critical) ns;
          warningNotifications = filter (\<lambda>n. type_ntf n = warning) ns
      in case criticalNotifications of
           c # _ \<Rightarrow> Some c
         | [] \<Rightarrow> (case warningNotifications of w # _ \<Rightarrow> Some w | [] \<Rightarrow> None))"

definition showMostCritical :: "NotificationData list \<Rightarrow> overlay \<Rightarrow> overlay" where
  "showMostCritical ns ov =
     (case nextNotification ns of
        Some n \<Rightarrow>
          if map_option id_ntf (currentNotification ov) \<noteq> Some (id_ntf n) then
            ov \<lparr> currentNotification := Some n,
                 isVisible := True,
                 soundLog := (if type_ntf n = critical then soundLog ov @ [id_ntf n]
                              else soundLog ov) \<rparr>
          else ov
      | None \<Rightarrow> ov \<lparr> isVisible := False, currentNotification := None \<rparr>)"

section \<open>The self-contained notification component\<close>

text \<open>
  The component mounted by the application shell polls the store itself. Its state is
  the notification list and the overlay; \<open>tags_db\<close> is the store's tag table it reads,
  \<open>errorLog\<close> counts the calls of \<open>console.error\<close>.
\<close>

record notifier_state =
  tags_db :: "MRDTag list"
  notifications :: "NotificationData list"
  overlay :: overlay
  errorLog :: nat

definition initial_state :: "MRDTag list \<Rightarrow> notifier_state" where
  "initial_state db =
     \<lparr> tags_db = db, notifications = [], overlay = initial_overlay, errorLog = 0 \<rparr>"

text \<open>The body of the \<open>forEach\<close>: what one tag pushes onto \<open>newNotifications\<close>.\<close>

definition tag_notification :: "instant \<Rightarrow> MRDTag \<Rightarrow> NotificationData list" where
  "tag_notification now tag =
     (let discardTime = discardTime_tag tag;
          minutesToDiscard = differenceInMinutes discardTime now
      in if isAfter now discardTime then
           [\<lparr> id_ntf = ''expired_'' @ id_tag tag,
              type_ntf = critical,
              title_ntf = ''PRODUCT EXPIRED'',
              message_ntf = js_str (productName_tag tag)
                            @ '' has expired and must be discarded immediately!'',
              tagId_ntf = None,
              productName_ntf = productName_tag tag,
              locationName_ntf = locationName_tag tag,
              timeRemaining_ntf = Some ''EXPIRED'',
              timestamp_ntf = now \<rparr>]
         else if minutesToDiscard \<le> 30 then
           [\<lparr> id_ntf = ''expiring_'' @ id_tag tag,
              type_ntf = warning,
              title_ntf = ''PRODUCT EXPIRING SOON'',
              message_ntf = js_str (productName_tag tag) @ '' will expire in ''
                            @ show_number minutesToDiscard @ '' minutes.'',
              tagId_ntf = None,
              productName_ntf = productName_tag tag,
              locationName_ntf = locationName_tag tag,
              timeRemaining_ntf = Some (show_number minutesToDiscard @ '' minutes''),
              timestamp_ntf = now \<rparr>]
         else [])"

definition newNotifications :: "instant \<Rightarrow> MRDTag list \<Rightarrow> NotificationData list" where
  "newNotifications now tagsData = concat (map (tag_notification now) tagsData)"

text \<open>The tags in the viewer's scope: kitchen staff see their location only.\<close>

definition scope_filter :: "User option \<Rightarrow> Location option \<Rightarrow> MRDTag list \<Rightarrow> MRDTag list" where
  "scope_filter user selectedLocation tagsData =
     (case (user, selectedLocation) of
        (Some u, Some l) \<Rightarrow>
          if role_user u = ''kitchen'' then filter (\<lambda>tag. locationId_tag tag = id_loc l) tagsData
          else tagsData
      | _ \<Rightarrow> tagsData)"

text \<open>One poll. \<open>fetch_ok = False\<close>: the call to the store threw.\<close>

definition checkForExpiringTags ::
  "bool \<Rightarrow> User option \<Rightarrow> Location option \<Rightarrow> instant \<Rightarrow> notifier_state \<Rightarrow> notifier_state" where
  "checkForExpiringTags fetch_ok user selectedLocation now s =
     (if fetch_ok then
        (let tagsData = scope_filter user selectedLocation (db_list_active (tags_db s))
         in s \<lparr> notifications := newNotifications now tagsData \<rparr>)
      else s \<lparr> errorLog := Suc (errorLog s) \<rparr>)"

definition handleDismiss :: "notifier_state \<Rightarrow> notifier_state" where
  "handleDismiss s =
     (case currentNotification (overlay s) of
        Some c \<Rightarrow>
          s \<lparr> notifications := filter (\<lambda>n. id_ntf n \<noteq> id_ntf c) (notifications s),
              overlay := (overlay s) \<lparr> isVisible := False \<rparr> \<rparr>
      | None \<Rightarrow> s)"

definition handleMarkAsHandled :: "notifier_state \<Rightarrow> notifier_state" where
  "handleMarkAsHandled s =
     (case currentNotification (overlay s) of
        Some c \<Rightarrow>
          s \<lparr> notifications := filter (\<lambda>n. id_ntf n \<noteq> id_ntf c) (notifications s),
              overlay := (overlay s) \<lparr> isVisible := False \<rparr> \<rparr>
      | None \<Rightarrow> s)"

text \<open>The selection effect, run by the framework after a change of state.\<close>

definition render :: "notifier_state \<Rightarrow> notifier_state" where
  "render s = s \<lparr> overlay := showMostCritical (notifications s) (overlay s) \<rparr>"

text \<open>
  What can happen to the mounted component: the 30-second timer fires (the poll runs
  only while a user and a location are set), the operator presses one of the two
  buttons, or the other pages and users leave the store's table in a new state. The
  framework runs the selection effect after a handler has replaced the notification
  list; a failed poll and a button pressed with nothing shown replace nothing.
\<close>

datatype event =
  Tick bool instant
  | Dismiss
  | MarkAsHandled
  | Store "MRDTag list"

fun step :: "User option \<Rightarrow> Location option \<Rightarrow> notifier_state \<Rightarrow> event \<Rightarrow> notifier_state" where
  "step user selectedLocation s (Tick fetch_ok now) =
     (if user \<noteq> None \<and> selectedLocation \<noteq> None then
        (if fetch_ok then render (checkForExpiringTags fetch_ok user selectedLocation now s)
         else checkForExpiringTags fetch_ok user selectedLocation now s)
      else s)"
| "step user selectedLocation s Dismiss =
     (if currentNotification (overlay s) = None then handleDismiss s
      else render (handleDismiss s))"
| "step user selectedLocation s MarkAsHandled =
     (if currentNotification (overlay s) = None then handleMarkAsHandled s
      else render (handleMarkAsHandled s))"
| "step user selectedLocation s (Store db) = s \<lparr> tags_db := db \<rparr>"

definition run :: "User option \<Rightarrow> Location option \<Rightarrow> event list \<Rightarrow> notifier_state \<Rightarrow> notifier_state" where
  "run user selectedLocation evs s = foldl (step user selectedLocation) s evs"

section \<open>The overview page and the notification component it feeds\<close>

text \<open>
  The overview page computes the notifications itself and hands them to the component
  as a property, with its two callbacks. \<open>refreshes\<close> counts the calls of \<open>loadData\<close>
  the handlers make; the reload itself is \<open>loadData\<close> below. \<open>overlay_d\<close> is the local
  state of the notification component the page renders.
\<close>

record dashboard_state =
  tags_db_d :: "MRDTag list"
  activeTags :: "MRDTag list"
  products_d :: "Product list"
  notifications_d :: "NotificationData list"
  overlay_d :: overlay
  errorLog_d :: nat
  refreshes :: nat
  isLoading :: bool

definition product_name :: "Product option \<Rightarrow> string" where
  "product_name product =
     (case product of
        None \<Rightarrow> ''Unknown Product''
      | Some p \<Rightarrow> if name_prod p = [] then ''Unknown Product'' else name_prod p)"

definition tag_notification_d ::
  "Product list \<Rightarrow> Location option \<Rightarrow> instant \<Rightarrow> MRDTag \<Rightarrow> NotificationData list" where
  "tag_notification_d products currentLocation now tag =
     (let minutesUntilDiscard = differenceInMinutes (discardTime_tag tag) now;
          product = find (\<lambda>p. id_prod p = productId_tag tag) products
      in if minutesUntilDiscard \<le> 0 then
           [\<lparr> id_ntf = ''expired-'' @ id_tag tag,
              type_ntf = critical,
              title_ntf = ''Product Expired'',
              message_ntf = product_name product
                            @ '' has expired and must be discarded immediately!'',
              tagId_ntf = Some (id_tag tag),
              productName_ntf = map_option name_prod product,
              locationName_ntf = map_option name_loc currentLocation,
              timeRemaining_ntf = Some ''EXPIRED'',
              timestamp_ntf = now \<rparr>]
         else if minutesUntilDiscard \<le> 30 then
           [\<lparr> id_ntf = ''expiring-'' @ id_tag tag,
              type_ntf = warning,
              title_ntf = ''Product Expiring Soon'',
              message_ntf = product_name product @ '' will expire in ''
                            @ show_number minutesUntilDiscard @ '' minutes.'',
              tagId_ntf = Some (id_tag tag),
              productName_ntf = map_option name_prod product,
              locationName_ntf = map_option name_loc currentLocation,
              timeRemaining_ntf = Some (show_number minutesUntilDiscard @ '' minutes''),
              timestamp_ntf = now \<rparr>]
         else [])"

definition checkForExpiringTags_d ::
  "MRDTag list option \<Rightarrow> Location option \<Rightarrow> instant \<Rightarrow> dashboard_state \<Rightarrow> dashboard_state" where
  "checkForExpiringTags_d tags currentLocation now d =
     (let tagsToCheck = (case tags of Some ts \<Rightarrow> ts | None \<Rightarrow> activeTags d)
      in d \<lparr> notifications_d :=
               concat (map (tag_notification_d (products_d d) currentLocation now) tagsToCheck) \<rparr>)"

text \<open>
  While \<open>isLoading\<close> is set the page renders its loading screen instead of its content,
  so the notification component is unmounted and loses its local state; it is mounted
  anew, with no current notification and hidden, when the flag is cleared. The calls of
  \<open>playNotificationSound\<close> already made stay made.
\<close>

definition remount :: "overlay \<Rightarrow> overlay" where
  "remount ov = ov \<lparr> currentNotification := None, isVisible := False \<rparr>"

text \<open>
  \<open>loadData\<close>: \<open>productsResult\<close> is what the store returns for the product query. The
  notifications are computed with the product list of the render that created the
  callback, that is the one in the state before the reload. With a location selected,
  the load sets \<open>isLoading\<close> before it awaits the store and clears it in its \<open>finally\<close>,
  whether the fetch succeeded or threw.
\<close>

definition loadData ::
  "bool \<Rightarrow> Location option \<Rightarrow> Product list \<Rightarrow> instant \<Rightarrow> dashboard_state \<Rightarrow> dashboard_state" where
  "loadData fetch_ok currentLocation productsResult now d =
     (case currentLocation of
        None \<Rightarrow> d
      | Some l \<Rightarrow>
          (let loading = d \<lparr> isLoading := True, overlay_d := remount (overlay_d d) \<rparr>;
               loaded =
                 (if fetch_ok then
                    (let tagsResult =
                           sort_key discardTime_tag
                             (filter (\<lambda>t. locationId_tag t = id_loc l \<and> status_tag t = active)
                                (tags_db_d loading))
                     in (checkForExpiringTags_d (Some tagsResult) currentLocation now loading)
                          \<lparr> activeTags := tagsResult, products_d := productsResult \<rparr>)
                  else loading \<lparr> errorLog_d := Suc (errorLog_d loading) \<rparr>)
           in loaded \<lparr> isLoading := False \<rparr>))"

definition handleNotificationDismiss :: "string \<Rightarrow> dashboard_state \<Rightarrow> dashboard_state" where
  "handleNotificationDismiss i d =
     d \<lparr> notifications_d := filter (\<lambda>n. id_ntf n \<noteq> i) (notifications_d d) \<rparr>"

text \<open>
  \<open>notification?.tagId\<close> is tested for truthiness: a missing or empty tag id skips the
  update.
\<close>

definition handleNotificationMarkAsHandled ::
  "bool \<Rightarrow> instant \<Rightarrow> string \<Rightarrow> dashboard_state \<Rightarrow> dashboard_state" where
  "handleNotificationMarkAsHandled db_ok now i d =
     (let notification = find (\<lambda>n. id_ntf n = i) (notifications_d d);
          d' = (case notification of
                  None \<Rightarrow> d
                | Some n \<Rightarrow>
                    (case tagId_ntf n of
                       None \<Rightarrow> d
                     | Some tagId \<Rightarrow>
                         if tagId \<noteq> [] \<and> type_ntf n = critical then
                           (if db_ok then
                              d \<lparr> tags_db_d :=
                                     db_update tagId
                                       (empty_patch \<lparr> status_patch := Some discarded,
                                                      updatedAt_patch := Some now \<rparr>)
                                       (tags_db_d d),
                                   refreshes := Suc (refreshes d) \<rparr>
                            else d \<lparr> errorLog_d := Suc (errorLog_d d) \<rparr>)
                         else d))
      in handleNotificationDismiss i d')"

text \<open>The buttons of the component fed by the overview page call the page's callbacks.\<close>

definition handleDismiss_d :: "dashboard_state \<Rightarrow> dashboard_state" where
  "handleDismiss_d d =
     (case currentNotification (overlay_d d) of
        Some c \<Rightarrow>
          (handleNotificationDismiss (id_ntf c) d)
            \<lparr> overlay_d := (overlay_d d) \<lparr> isVisible := False \<rparr> \<rparr>
      | None \<Rightarrow> d)"

definition handleMarkAsHandled_d :: "bool \<Rightarrow> instant \<Rightarrow> dashboard_state \<Rightarrow> dashboard_state" where
  "handleMarkAsHandled_d db_ok now d =
     (case currentNotification (overlay_d d) of
        Some c \<Rightarrow>
          (handleNotificationMarkAsHandled db_ok now (id_ntf c) d)
            \<lparr> overlay_d := (overlay_d d) \<lparr> isVisible := False \<rparr> \<rparr>
      | None \<Rightarrow> d)"

definition render_d :: "dashboard_state \<Rightarrow> dashboard_state" where
  "render_d d = d \<lparr> overlay_d := showMostCritical (notifications_d d) (overlay_d d) \<rparr>"

definition initial_dashboard :: "MRDTag list \<Rightarrow> Product list \<Rightarrow> dashboard_state" where
  "initial_dashboard db ps =
     \<lparr> tags_db_d = db, activeTags = [], products_d = ps, notifications_d = [],
       overlay_d = initial_overlay, errorLog_d = 0, refreshes = 0, isLoading = True \<rparr>"

section \<open>Notions used in the statements\<close>

text \<open>A tag with its three mutable fields blanked: what must never change after creation.\<close>

definition frozen_fields :: "MRDTag \<Rightarrow> MRDTag" where
  "frozen_fields t = t \<lparr> status_tag := active, isPrinted_tag := [], updatedAt_tag := None \<rparr>"

text \<open>
  The ids the self-contained component builds tell the severity: critical ones, and only
  they, begin with \<open>expired_\<close>.
\<close>

definition kind_matches_id :: "NotificationData \<Rightarrow> bool" where
  "kind_matches_id n = ((type_ntf n = critical) = (take 8 (id_ntf n) = ''expired_''))"

text \<open>
  A state in which the selection effect has run: the overlay shows a notification with
  the id of the one the list puts first, or nothing when the list is empty.
\<close>

definition settled :: "notifier_state \<Rightarrow> bool" where
  "settled s =
     ((\<forall>n \<in> set (notifications s). kind_matches_id n)
      \<and> (case currentNotification (overlay s) of
            None \<Rightarrow> \<not> isVisible (overlay s) \<and> nextNotification (notifications s) = None
          | Some c \<Rightarrow>
              kind_matches_id c \<and> isVisible (overlay s)
              \<and> map_option id_ntf (nextNotification (notifications s)) = Some (id_ntf c)))"

text \<open>What a handler leaves behind for the effect: a hidden notification is off the list.\<close>

definition ready_to_render :: "notifier_state \<Rightarrow> bool" where
  "ready_to_render s =
     ((\<forall>n \<in> set (notifications s). kind_matches_id n)
      \<and> (case currentNotification (overlay s) of
            None \<Rightarrow> True
          | Some c \<Rightarrow>
              kind_matches_id c
              \<and> (isVisible (overlay s) \<or> (\<forall>n \<in> set (notifications s). id_ntf n \<noteq> id_ntf c))))"

section \<open>Example data\<close>

definition example_product :: "int \<Rightarrow> int \<Rightarrow> Product" where
  "example_product r d =
     \<lparr> id_prod = ''prod_1'', name_prod = ''Soup'', category_prod = ''Hot'',
       readyTimeMinutes_prod = r, discardTimeMinutes_prod = d, timeType_prod = ''hours'',
       dayOffset_prod = None, storageRequirements_prod = [], allergens_prod = [],
       isActive_prod = ''1'', excludeFromDashboard_prod = ''0'' \<rparr>"

definition example_form :: "int \<Rightarrow> int \<Rightarrow> int \<Rightarrow> int \<Rightarrow> product_form" where
  "example_form rh rm dh dm =
     \<lparr> name_form = ''Soup'', category_form = ''Hot'',
       readyTimeHours_form = rh, readyTimeMinutes_form = rm,
       discardTimeHours_form = dh, discardTimeMinutes_form = dm,
       timeType_form = ''hours'', dayOffset_form = 0,
       storageRequirements_form = [], allergens_form = [],
       isActive_form = True, excludeFromDashboard_form = False \<rparr>"

definition example_user :: User where
  "example_user = \<lparr> id_user = ''user_1'', name_user = ''Ana'', role_user = ''admin'' \<rparr>"

definition example_location :: Location where
  "example_location = \<lparr> id_loc = ''loc_1'', name_loc = ''Kitchen'' \<rparr>"

definition example_notification :: "string \<Rightarrow> severity \<Rightarrow> NotificationData" where
  "example_notification i k =
     \<lparr> id_ntf = i, type_ntf = k, title_ntf = ''PRODUCT'', message_ntf = ''Soup'',
       tagId_ntf = None, productName_ntf = Some ''Soup'', locationName_ntf = Some ''Kitchen'',
       timeRemaining_ntf = None, timestamp_ntf = 0 \<rparr>"

section \<open>Properties of the classifier\<close>

lemma div_minute_le_iff: "((a::int) div 60000 \<le> k) = (a < (k + 1) * 60000)"
proof -
  define q where "q = a div 60000"
  define r where "r = a mod 60000"
  have "a = 60000 * q + r" "0 \<le> r" "r < 60000"
    by (simp_all add: q_def r_def)
  then have "(q \<le> k) = (a < (k + 1) * 60000)"
    by (auto simp: algebra_simps)
  then show ?thesis by (simp add: q_def)
qed

lemma differenceInMinutes_le_iff:
  "now \<le> d \<Longrightarrow> (differenceInMinutes d now \<le> k) = (d - now < (k + 1) * 60000)"
  by (simp add: differenceInMinutes_def MILLISECONDS_IN_MINUTE_def trunc_div_def
      div_minute_le_iff)

lemma differenceInMinutes_past: "d < now \<Longrightarrow> differenceInMinutes d now \<le> 0"
  by (simp add: differenceInMinutes_def MILLISECONDS_IN_MINUTE_def trunc_div_def
      pos_imp_zdiv_nonneg_iff)

text \<open>
  The three classifiers of the source disagree at the discard instant itself, and the
  overview page calls a tag expired from its last minute on.
\<close>

lemma classifiers_at_discard_instant:
  "status_v (getTagStatus tag (discardTime_tag tag)) = ''expiring''"
  "status_v (getTagStatus_overview tag (discardTime_tag tag)) = ''expired''"
  "getStatusText (Some (Date r)) (Some (Date d)) d = (if d < r then ''Preparing'' else ''Expired'')"
  by (simp_all add: getTagStatus_def getTagStatus_overview_def getStatusText_def isAfter_def
      differenceInMinutes_def trunc_div_def)

lemma getTagStatus_overview_classification:
  "(status_v (getTagStatus_overview tag now) = ''expired'')
     = (discardTime_tag tag - now < MILLISECONDS_IN_MINUTE)"
  "(status_v (getTagStatus_overview tag now) = ''expiring'')
     = (MILLISECONDS_IN_MINUTE \<le> discardTime_tag tag - now
        \<and> discardTime_tag tag - now < 31 * MILLISECONDS_IN_MINUTE)"
proof -
  have le: "(differenceInMinutes (discardTime_tag tag) now \<le> k)
       = (discardTime_tag tag - now < (k + 1) * 60000)" if "0 \<le> k" for k
  proof (cases "now \<le> discardTime_tag tag")
    case True
    then show ?thesis by (rule differenceInMinutes_le_iff)
  next
    case False
    then have "differenceInMinutes (discardTime_tag tag) now \<le> 0"
      by (simp add: differenceInMinutes_past)
    with False that show ?thesis by auto
  qed
  show "(status_v (getTagStatus_overview tag now) = ''expired'')
     = (discardTime_tag tag - now < MILLISECONDS_IN_MINUTE)"
    using le [of 0] by (simp add: getTagStatus_overview_def MILLISECONDS_IN_MINUTE_def Let_def)
  show "(status_v (getTagStatus_overview tag now) = ''expiring'')
     = (MILLISECONDS_IN_MINUTE \<le> discardTime_tag tag - now
        \<and> discardTime_tag tag - now < 31 * MILLISECONDS_IN_MINUTE)"
    using le [of 0] le [of 30]
    by (auto simp add: getTagStatus_overview_def MILLISECONDS_IN_MINUTE_def Let_def)
qed

text \<open>
  C1 (as stated, refuted). With 30 minutes and 30 seconds left the classifier already
  answers \<open>expiring\<close>, although the time left is not within \<open>(0, 30 min]\<close>: the code
  compares the truncated whole-minute difference with 30.
\<close>

theorem getTagStatus_window_counterexample:
  "\<not> ((status_v (getTagStatus (example_tag ''tag_1'' 0 0 1830000) 0) = ''expiring'')
       = (0 < discardTime_tag (example_tag ''tag_1'' 0 0 1830000) - 0
          \<and> discardTime_tag (example_tag ''tag_1'' 0 0 1830000) - 0 \<le> 30 * MILLISECONDS_IN_MINUTE))"
  by (simp add: getTagStatus_def example_tag_def differenceInMinutes_def trunc_div_def
      MILLISECONDS_IN_MINUTE_def isAfter_def)

text \<open>
  C1 (amended). For every tag and every \<open>now\<close> other than the discard instant itself:
  the classifier answers \<open>expired\<close> iff \<open>now \<ge> discardAt\<close>; \<open>expiring\<close> iff the time
  left is positive and less than 31 minutes (its whole-minute part is at most 30);
  \<open>preparing\<close> iff at least 31 minutes are left and \<open>now\<close> is before the ready time;
  \<open>ready\<close> iff at least 31 minutes are left and \<open>now\<close> is not before the ready time
  (or the tag has none). The answer is always one of these four, so the outcomes are
  mutually exclusive and exhaustive, and the function is total.
\<close>

theorem getTagStatus_classification:
  assumes "now \<noteq> discardTime_tag tag"
  shows "((status_v (getTagStatus tag now) = ''expired'') = (discardTime_tag tag \<le> now))
       \<and> ((status_v (getTagStatus tag now) = ''expiring'')
            = (0 < discardTime_tag tag - now
               \<and> discardTime_tag tag - now < 31 * MILLISECONDS_IN_MINUTE))
       \<and> ((status_v (getTagStatus tag now) = ''preparing'')
            = (31 * MILLISECONDS_IN_MINUTE \<le> discardTime_tag tag - now
               \<and> (\<exists>r. readyTime_tag tag = Some r \<and> now < r)))
       \<and> ((status_v (getTagStatus tag now) = ''ready'')
            = (31 * MILLISECONDS_IN_MINUTE \<le> discardTime_tag tag - now
               \<and> \<not> (\<exists>r. readyTime_tag tag = Some r \<and> now < r)))
       \<and> status_v (getTagStatus tag now) \<in> {''expired'', ''expiring'', ''preparing'', ''ready''}"
proof (cases "discardTime_tag tag < now")
  case True
  then show ?thesis
    by (simp add: getTagStatus_def isAfter_def MILLISECONDS_IN_MINUTE_def)
next
  case False
  with assms have le: "now \<le> discardTime_tag tag" and lt: "now < discardTime_tag tag"
    by simp_all
  show ?thesis
  proof (cases "discardTime_tag tag - now < 31 * 60000")
    case True
    with le lt show ?thesis
      by (simp add: getTagStatus_def isAfter_def MILLISECONDS_IN_MINUTE_def
          differenceInMinutes_le_iff)
  next
    case far: False
    with le lt show ?thesis
      by (cases "readyTime_tag tag")
        (auto simp add: getTagStatus_def isAfter_def isBefore_def MILLISECONDS_IN_MINUTE_def
          differenceInMinutes_le_iff)
  qed
qed

theorem getTagStatus_classification_witness:
  "13500000 \<noteq> discardTime_tag (example_tag ''tag_1'' 0 3600000 14400000)
   \<and> status_v (getTagStatus (example_tag ''tag_1'' 0 3600000 14400000) 13500000) = ''expiring''
   \<and> status_v (getTagStatus (example_tag ''tag_1'' 0 3600000 14400000) 1800000) = ''preparing''
   \<and> status_v (getTagStatus (example_tag ''tag_1'' 0 3600000 14400000) 14700000) = ''expired''
   \<and> status_v (getTagStatus (example_tag ''tag_1'' 0 3600000 14400000) 7200000) = ''ready''"
  using getTagStatus_classification [of 13500000 "example_tag ''tag_1'' 0 3600000 14400000"]
    getTagStatus_classification [of 1800000 "example_tag ''tag_1'' 0 3600000 14400000"]
    getTagStatus_classification [of 14700000 "example_tag ''tag_1'' 0 3600000 14400000"]
    getTagStatus_classification [of 7200000 "example_tag ''tag_1'' 0 3600000 14400000"]
  by (simp add: example_tag_def MILLISECONDS_IN_MINUTE_def)

section \<open>Properties of the resolver\<close>

lemma calculateTimes_hours:
  "timeType_prod p = ''hours'' \<Longrightarrow>
   calculateTimes cal (Some p) (Date madeAt)
     = (Some (new_Date (madeAt + readyTimeMinutes_prod p * MILLISECONDS_IN_MINUTE)),
        Some (new_Date (madeAt + discardTimeMinutes_prod p * MILLISECONDS_IN_MINUTE)))"
  by (simp add: calculateTimes_def)

text \<open>
  C2 (as stated, refuted). The made time is 2024-01-01T10:00Z and both offsets are
  200000000000 minutes, so \<open>discard \<ge> ready \<ge> 0\<close> holds; the instants
  \<open>madeAt + offset\<close> lie beyond the last time value a \<open>Date\<close> can hold, and the
  resolver returns the invalid date for both instead of \<open>madeAt + offset\<close>.
\<close>

theorem calculateTimes_out_of_range_counterexample:
  "0 \<le> readyTimeMinutes_prod (example_product 200000000000 200000000000)
   \<and> readyTimeMinutes_prod (example_product 200000000000 200000000000)
       \<le> discardTimeMinutes_prod (example_product 200000000000 200000000000)
   \<and> timeType_prod (example_product 200000000000 200000000000) = ''hours''
   \<and> valid_time 1704103200000
   \<and> calculateTimes utc_calendar (Some (example_product 200000000000 200000000000))
         (Date 1704103200000)
       = (Some InvalidDate, Some InvalidDate)
   \<and> calculateTimes utc_calendar (Some (example_product 200000000000 200000000000))
         (Date 1704103200000)
       \<noteq> (Some (Date (1704103200000 + 200000000000 * MILLISECONDS_IN_MINUTE)),
           Some (Date (1704103200000 + 200000000000 * MILLISECONDS_IN_MINUTE)))"
  by (simp add: calculateTimes_def example_product_def new_Date_def valid_time_def
      MAX_TIME_def MILLISECONDS_IN_MINUTE_def)

text \<open>
  C2 (amended). For a product with the relative-minutes policy (\<open>timeType = hours\<close>)
  whose offsets satisfy \<open>0 \<le> ready \<le> discard\<close>, and any valid made time: if
  \<open>madeAt + discard\<close> minutes is still a time value a \<open>Date\<close> can hold (at most
  8.64e15 ms), \<open>calculateTimes\<close> returns \<open>readyAt = madeAt + ready\<close> minutes and
  \<open>discardAt = madeAt + discard\<close> minutes, with \<open>readyAt \<le> discardAt\<close>; an instant
  beyond that bound is returned as the invalid date. The result is a function of the
  product and the made time alone: it does not depend on the calendar (time zone) in use.
\<close>

theorem calculateTimes_relative_minutes:
  assumes "timeType_prod p = ''hours''"
    and "0 \<le> readyTimeMinutes_prod p"
    and "readyTimeMinutes_prod p \<le> discardTimeMinutes_prod p"
    and "valid_time madeAt"
  shows "(madeAt + discardTimeMinutes_prod p * MILLISECONDS_IN_MINUTE \<le> MAX_TIME \<longrightarrow>
           (\<exists>readyAt discardAt.
              calculateTimes cal (Some p) (Date madeAt) = (Some (Date readyAt), Some (Date discardAt))
            \<and> readyAt = madeAt + readyTimeMinutes_prod p * MILLISECONDS_IN_MINUTE
            \<and> discardAt = madeAt + discardTimeMinutes_prod p * MILLISECONDS_IN_MINUTE
            \<and> readyAt \<le> discardAt))
       \<and> (madeAt + readyTimeMinutes_prod p * MILLISECONDS_IN_MINUTE \<le> MAX_TIME \<longrightarrow>
            fst (calculateTimes cal (Some p) (Date madeAt))
              = Some (Date (madeAt + readyTimeMinutes_prod p * MILLISECONDS_IN_MINUTE)))
       \<and> (MAX_TIME < madeAt + readyTimeMinutes_prod p * MILLISECONDS_IN_MINUTE \<longrightarrow>
            fst (calculateTimes cal (Some p) (Date madeAt)) = Some InvalidDate)
       \<and> (MAX_TIME < madeAt + discardTimeMinutes_prod p * MILLISECONDS_IN_MINUTE \<longrightarrow>
            snd (calculateTimes cal (Some p) (Date madeAt)) = Some InvalidDate)
       \<and> calculateTimes cal' (Some p) (Date madeAt) = calculateTimes cal (Some p) (Date madeAt)"
proof -
  have r: "0 \<le> readyTimeMinutes_prod p * 60000" using assms(2) by simp
  have rd: "readyTimeMinutes_prod p * 60000 \<le> discardTimeMinutes_prod p * 60000"
    using assms(3) by simp
  from assms(1) r rd assms(4) show ?thesis
    by (simp add: calculateTimes_hours new_Date_def valid_time_def MILLISECONDS_IN_MINUTE_def)
qed

theorem calculateTimes_relative_minutes_witness:
  "timeType_prod (example_product 60 240) = ''hours''
   \<and> 0 \<le> readyTimeMinutes_prod (example_product 60 240)
   \<and> readyTimeMinutes_prod (example_product 60 240)
       \<le> discardTimeMinutes_prod (example_product 60 240)
   \<and> valid_time 1704103200000
   \<and> 1704103200000 + discardTimeMinutes_prod (example_product 60 240) * MILLISECONDS_IN_MINUTE
       \<le> MAX_TIME
   \<and> calculateTimes utc_calendar (Some (example_product 60 240)) (Date 1704103200000)
       = (Some (Date 1704106800000), Some (Date 1704117600000))"
proof -
  have h: "timeType_prod (example_product 60 240) = ''hours''"
    "0 \<le> readyTimeMinutes_prod (example_product 60 240)"
    "readyTimeMinutes_prod (example_product 60 240)
       \<le> discardTimeMinutes_prod (example_product 60 240)"
    "valid_time 1704103200000"
    by (simp_all add: example_product_def valid_time_def MAX_TIME_def)
  have bound: "1704103200000
      + discardTimeMinutes_prod (example_product 60 240) * MILLISECONDS_IN_MINUTE \<le> MAX_TIME"
    by (simp add: example_product_def MAX_TIME_def MILLISECONDS_IN_MINUTE_def)
  from mp [OF conjunct1 [OF calculateTimes_relative_minutes [OF h, of utc_calendar]] bound]
  have "calculateTimes utc_calendar (Some (example_product 60 240)) (Date 1704103200000)
       = (Some (Date 1704106800000), Some (Date 1704117600000))"
    by (auto simp add: example_product_def MILLISECONDS_IN_MINUTE_def)
  with h bound show ?thesis by simp
qed

text \<open>
  C8 (as stated, refuted). With offsets of \<open>-5\<close> and \<open>-10\<close> minutes the resolver returns
  two dates, both before the made time, and no error.
\<close>

theorem calculateTimes_negative_offsets_counterexample:
  "readyTimeMinutes_prod (example_product (- 5) (- 10)) < 0
   \<and> discardTimeMinutes_prod (example_product (- 5) (- 10)) < 0
   \<and> calculateTimes utc_calendar (Some (example_product (- 5) (- 10))) (Date 600000)
     = (Some (Date 300000), Some (Date 0))"
  by (simp add: calculateTimes_def example_product_def new_Date_def valid_time_def
      MAX_TIME_def MILLISECONDS_IN_MINUTE_def)

text \<open>
  C8 (amended). The resolver validates nothing and has no error of its own. For a
  relative-minutes policy and a valid made time it returns, for each offset whatever its
  sign, the date \<open>madeAt + offset\<close> minutes when that time value is one a \<open>Date\<close> can
  hold, and the invalid date otherwise. A component of its result is null only in the
  pair of nulls, which is returned exactly when no product is selected or the product's
  time type is none of the three known ones.
\<close>

theorem calculateTimes_validates_nothing:
  "(timeType_prod p = ''hours'' \<longrightarrow>
      fst (calculateTimes cal (Some p) (Date madeAt))
        = Some (if valid_time (madeAt + readyTimeMinutes_prod p * MILLISECONDS_IN_MINUTE)
                then Date (madeAt + readyTimeMinutes_prod p * MILLISECONDS_IN_MINUTE)
                else InvalidDate)
      \<and> snd (calculateTimes cal (Some p) (Date madeAt))
        = Some (if valid_time (madeAt + discardTimeMinutes_prod p * MILLISECONDS_IN_MINUTE)
                then Date (madeAt + discardTimeMinutes_prod p * MILLISECONDS_IN_MINUTE)
                else InvalidDate))
   \<and> ((fst (calculateTimes cal selectedProduct madeTime) = None
         \<or> snd (calculateTimes cal selectedProduct madeTime) = None)
        = (calculateTimes cal selectedProduct madeTime = (None, None)))
   \<and> ((calculateTimes cal selectedProduct madeTime = (None, None))
        = (selectedProduct = None
           \<or> (\<exists>q. selectedProduct = Some q
                 \<and> timeType_prod q \<notin> {''hours'', ''start_of_day'', ''end_of_day''})))"
  by (cases selectedProduct)
    (auto simp add: calculateTimes_def new_Date_def Let_def)

theorem calculateTimes_validates_nothing_witness:
  "timeType_prod (example_product (- 5) (- 10)) = ''hours''
   \<and> calculateTimes utc_calendar (Some (example_product (- 5) (- 10))) (Date 600000)
       = (Some (Date 300000), Some (Date 0))"
proof -
  have h: "timeType_prod (example_product (- 5) (- 10)) = ''hours''"
    by (simp add: example_product_def)
  from mp [OF conjunct1 [OF calculateTimes_validates_nothing
        [of "example_product (- 5) (- 10)" utc_calendar 600000]] h]
  have "fst (calculateTimes utc_calendar (Some (example_product (- 5) (- 10))) (Date 600000))
          = Some (Date 300000)
        \<and> snd (calculateTimes utc_calendar (Some (example_product (- 5) (- 10))) (Date 600000))
          = Some (Date 0)"
    by (simp add: example_product_def valid_time_def MAX_TIME_def MILLISECONDS_IN_MINUTE_def)
  with h show ?thesis by (simp add: prod_eq_iff)
qed

section \<open>Frame properties of the tag handlers\<close>

lemma frozen_fields_discard_patch:
  "frozen_fields (apply_patch (empty_patch \<lparr> status_patch := Some st, updatedAt_patch := Some u \<rparr>) t)
     = frozen_fields t"
  by (simp add: frozen_fields_def apply_patch_def empty_patch_def or_else_def)

lemma frozen_fields_print_patch:
  "frozen_fields (apply_patch (empty_patch \<lparr> isPrinted_patch := Some x \<rparr>) t) = frozen_fields t"
  by (simp add: frozen_fields_def apply_patch_def empty_patch_def or_else_def)

lemma frozen_fields_db_update:
  "(\<And>t. frozen_fields (apply_patch p t) = frozen_fields t)
     \<Longrightarrow> map frozen_fields (db_update i p db) = map frozen_fields db"
  by (simp add: db_update_def)

lemma frozen_fields_times:
  "frozen_fields t = frozen_fields t'
     \<Longrightarrow> madeTime_tag t = madeTime_tag t' \<and> readyTime_tag t = readyTime_tag t'
         \<and> discardTime_tag t = discardTime_tag t'"
  by (cases t; cases t') (simp add: frozen_fields_def)

text \<open>
  C10. Discarding a tag, marking it printed and acknowledging an alert (through either
  component) leave every row of the tag table as it was apart from \<open>status\<close>,
  \<open>isPrinted\<close> and \<open>updatedAt\<close>: in particular \<open>madeTime\<close>, \<open>readyTime\<close> and
  \<open>discardTime\<close> of every tag are the ones written at creation.
\<close>

theorem tag_times_frozen:
  "map frozen_fields (handleDiscardTag confirmed db_ok tagId now db) = map frozen_fields db
   \<and> map frozen_fields (handlePrint db_ok previewTag db) = map frozen_fields db
   \<and> map frozen_fields (tags_db_d (handleNotificationMarkAsHandled db_ok now i d))
       = map frozen_fields (tags_db_d d)
   \<and> tags_db_d (handleNotificationDismiss i d) = tags_db_d d
   \<and> tags_db (handleMarkAsHandled s) = tags_db s
   \<and> tags_db (handleDismiss s) = tags_db s
   \<and> map (\<lambda>t. (madeTime_tag t, readyTime_tag t, discardTime_tag t))
         (handleDiscardTag confirmed db_ok tagId now db)
       = map (\<lambda>t. (madeTime_tag t, readyTime_tag t, discardTime_tag t)) db
   \<and> map (\<lambda>t. (madeTime_tag t, readyTime_tag t, discardTime_tag t))
         (handlePrint db_ok previewTag db)
       = map (\<lambda>t. (madeTime_tag t, readyTime_tag t, discardTime_tag t)) db
   \<and> map (\<lambda>t. (madeTime_tag t, readyTime_tag t, discardTime_tag t))
         (tags_db_d (handleNotificationMarkAsHandled db_ok now i d))
       = map (\<lambda>t. (madeTime_tag t, readyTime_tag t, discardTime_tag t)) (tags_db_d d)"
proof -
  have discard: "map frozen_fields (handleDiscardTag confirmed db_ok tagId now db) = map frozen_fields db"
    by (simp add: handleDiscardTag_def frozen_fields_db_update frozen_fields_discard_patch)
  have print: "map frozen_fields (handlePrint db_ok previewTag db) = map frozen_fields db"
    by (cases previewTag)
      (simp_all add: handlePrint_def frozen_fields_db_update frozen_fields_print_patch)
  have handled: "map frozen_fields (tags_db_d (handleNotificationMarkAsHandled db_ok now i d))
       = map frozen_fields (tags_db_d d)"
    by (simp add: handleNotificationMarkAsHandled_def handleNotificationDismiss_def Let_def
        frozen_fields_db_update frozen_fields_discard_patch split: option.splits)
  have times: "map (\<lambda>t. (madeTime_tag t, readyTime_tag t, discardTime_tag t)) xs
       = map (\<lambda>t. (madeTime_tag t, readyTime_tag t, discardTime_tag t)) ys"
    if "map frozen_fields xs = map frozen_fields ys" for xs ys
    using that
  proof (induction xs arbitrary: ys)
    case Nil
    then show ?case by simp
  next
    case (Cons x xs)
    then obtain y ys' where ys: "ys = y # ys'" by (cases ys) auto
    with Cons.prems have "frozen_fields x = frozen_fields y" "map frozen_fields xs = map frozen_fields ys'"
      by simp_all
    with Cons.IH ys frozen_fields_times [of x y] show ?case by simp
  qed
  have dismiss: "tags_db_d (handleNotificationDismiss i d) = tags_db_d d"
    by (simp add: handleNotificationDismiss_def)
  have h1: "tags_db (handleMarkAsHandled s) = tags_db s"
    by (simp add: handleMarkAsHandled_def split: option.splits)
  have h2: "tags_db (handleDismiss s) = tags_db s"
    by (simp add: handleDismiss_def split: option.splits)
  from discard print handled dismiss h1 h2 times [OF discard] times [OF print] times [OF handled]
  show ?thesis by blast
qed

theorem tag_times_frozen_witness:
  "map status_tag (handleDiscardTag True True ''tag_1'' 9 [example_tag ''tag_1'' 0 1 2]) = [discarded]
   \<and> map (\<lambda>t. (madeTime_tag t, readyTime_tag t, discardTime_tag t))
         (handleDiscardTag True True ''tag_1'' 9 [example_tag ''tag_1'' 0 1 2])
       = [(0, Some 1, 2)]"
  using tag_times_frozen [of True True "''tag_1''" 9 "[example_tag ''tag_1'' 0 1 2]"]
  by (simp add: handleDiscardTag_def db_update_def apply_patch_def empty_patch_def or_else_def
      example_tag_def)

section \<open>Events of one poll\<close>



















section \<open>A failed fetch\<close>

lemma step_errorLog:
  "\<exists>k'. step user selectedLocation (s \<lparr> errorLog := k \<rparr>) e
          = (step user selectedLocation s e) \<lparr> errorLog := k' \<rparr>"
proof (cases e)
  case (Tick fetch_ok now)
  show ?thesis
  proof (cases "user \<noteq> None \<and> selectedLocation \<noteq> None")
    case True
    show ?thesis
    proof (cases fetch_ok)
      case ok: True
      have "step user selectedLocation (s \<lparr> errorLog := k \<rparr>) e
          = (step user selectedLocation s e) \<lparr> errorLog := k \<rparr>"
        using Tick True ok by (simp add: checkForExpiringTags_def render_def)
      then show ?thesis by blast
    next
      case False
      have "step user selectedLocation (s \<lparr> errorLog := k \<rparr>) e
          = (step user selectedLocation s e) \<lparr> errorLog := Suc k \<rparr>"
        using Tick True False by (simp add: checkForExpiringTags_def)
      then show ?thesis by blast
    qed
  next
    case False
    have "step user selectedLocation (s \<lparr> errorLog := k \<rparr>) e
          = (step user selectedLocation s e) \<lparr> errorLog := k \<rparr>"
      using Tick False by auto
    then show ?thesis by blast
  qed
next
  case Dismiss
  have "step user selectedLocation (s \<lparr> errorLog := k \<rparr>) e
          = (step user selectedLocation s e) \<lparr> errorLog := k \<rparr>"
    using Dismiss by (simp add: handleDismiss_def render_def split: option.splits)
  then show ?thesis by blast
next
  case MarkAsHandled
  have "step user selectedLocation (s \<lparr> errorLog := k \<rparr>) e
          = (step user selectedLocation s e) \<lparr> errorLog := k \<rparr>"
    using MarkAsHandled by (simp add: handleMarkAsHandled_def render_def split: option.splits)
  then show ?thesis by blast
next
  case (Store db)
  have "step user selectedLocation (s \<lparr> errorLog := k \<rparr>) e
          = (step user selectedLocation s e) \<lparr> errorLog := k \<rparr>"
    using Store by simp
  then show ?thesis by blast
qed

lemma run_errorLog:
  "\<exists>k'. run user selectedLocation evs (s \<lparr> errorLog := k \<rparr>)
          = (run user selectedLocation evs s) \<lparr> errorLog := k' \<rparr>"
proof (induction evs arbitrary: s k)
  case Nil
  show ?case by (simp add: run_def) blast
next
  case (Cons e evs)
  from step_errorLog [where user = user and selectedLocation = selectedLocation and s = s
      and k = k and e = e] obtain k1 where
    k1: "step user selectedLocation (s \<lparr> errorLog := k \<rparr>) e
          = (step user selectedLocation s e) \<lparr> errorLog := k1 \<rparr>" by blast
  from Cons.IH [where s = "step user selectedLocation s e" and k = k1] obtain k2 where
    "run user selectedLocation evs ((step user selectedLocation s e) \<lparr> errorLog := k1 \<rparr>)
       = (run user selectedLocation evs (step user selectedLocation s e)) \<lparr> errorLog := k2 \<rparr>"
    by blast
  with k1 have "run user selectedLocation (e # evs) (s \<lparr> errorLog := k \<rparr>)
          = (run user selectedLocation (e # evs) s) \<lparr> errorLog := k2 \<rparr>"
    by (simp add: run_def)
  then show ?case by blast
qed

lemma failed_tick_step:
  "step user selectedLocation s (Tick False now)
     = s \<lparr> errorLog := (if user \<noteq> None \<and> selectedLocation \<noteq> None then Suc (errorLog s)
                         else errorLog s) \<rparr>"
  by (simp add: checkForExpiringTags_def)

lemma run_after_failed_tick:
  "\<exists>k'. run user selectedLocation (Tick False now # evs) s
          = (run user selectedLocation evs s) \<lparr> errorLog := k' \<rparr>"
proof -
  have "run user selectedLocation (Tick False now # evs) s
      = run user selectedLocation evs (step user selectedLocation s (Tick False now))"
    by (simp add: run_def)
  with run_errorLog [where user = user and selectedLocation = selectedLocation and evs = evs
      and s = s] show ?thesis
    by (simp only: failed_tick_step)
qed

text \<open>
  C6. A poll whose fetch fails changes nothing but the error log, which it increments:
  the notification list, the overlay and the store are what they were. The component
  goes on: after any further events the list, the overlay and the store are the ones
  they would have been without the failed poll. The overview page's \<open>loadData\<close> keeps
  its notification list and the store on a failed fetch as well.
\<close>

theorem failed_fetch_keeps_live_set:
  "checkForExpiringTags False user selectedLocation now s = s \<lparr> errorLog := Suc (errorLog s) \<rparr>
   \<and> notifications (step user selectedLocation s (Tick False now)) = notifications s
   \<and> overlay (step user selectedLocation s (Tick False now)) = overlay s
   \<and> tags_db (step user selectedLocation s (Tick False now)) = tags_db s
   \<and> errorLog (step user selectedLocation s (Tick False now))
       = (if user \<noteq> None \<and> selectedLocation \<noteq> None then Suc (errorLog s) else errorLog s)
   \<and> notifications (run user selectedLocation (Tick False now # evs) s)
       = notifications (run user selectedLocation evs s)
   \<and> overlay (run user selectedLocation (Tick False now # evs) s)
       = overlay (run user selectedLocation evs s)
   \<and> tags_db (run user selectedLocation (Tick False now # evs) s)
       = tags_db (run user selectedLocation evs s)
   \<and> notifications_d (loadData False currentLocation productsResult now d) = notifications_d d
   \<and> tags_db_d (loadData False currentLocation productsResult now d) = tags_db_d d"
proof -
  from run_after_failed_tick [where user = user and selectedLocation = selectedLocation
      and now = now and evs = evs and s = s] obtain k' where
    k': "run user selectedLocation (Tick False now # evs) s
          = (run user selectedLocation evs s) \<lparr> errorLog := k' \<rparr>" by blast
  have a: "checkForExpiringTags False user selectedLocation now s
      = s \<lparr> errorLog := Suc (errorLog s) \<rparr>"
    by (simp add: checkForExpiringTags_def)
  have b: "notifications_d (loadData False currentLocation productsResult now d) = notifications_d d
      \<and> tags_db_d (loadData False currentLocation productsResult now d) = tags_db_d d"
    by (cases currentLocation) (simp_all add: loadData_def Let_def)
  show ?thesis
    unfolding k' failed_tick_step using a b by simp
qed

theorem failed_fetch_keeps_live_set_witness:
  "map id_ntf (notifications (run (Some example_user) (Some example_location)
       [Tick True 300, Tick False 400] (initial_state [example_tag ''tag_1'' 0 10 100])))
     = [''expired_tag_1'']
   \<and> errorLog (run (Some example_user) (Some example_location)
       [Tick True 300, Tick False 400] (initial_state [example_tag ''tag_1'' 0 10 100])) = 1"
  using failed_fetch_keeps_live_set [where user = "Some example_user"
      and selectedLocation = "Some example_location" and now = 400
      and s = "run (Some example_user) (Some example_location) [Tick True 300]
         (initial_state [example_tag ''tag_1'' 0 10 100])"
      and evs = "[]" and currentLocation = None and productsResult = "[]"
      and d = "initial_dashboard [] []"]
  by (simp add: run_def checkForExpiringTags_def render_def initial_state_def example_tag_def
      example_user_def scope_filter_def db_list_active_def newNotifications_def
      tag_notification_def isAfter_def Let_def)

section \<open>Acknowledging an alert\<close>

lemma handleNotificationMarkAsHandled_critical:
  assumes "find (\<lambda>n. id_ntf n = i) (notifications_d d) = Some n"
    and "type_ntf n = critical" and "tagId_ntf n = Some tagId" and "tagId \<noteq> []"
  shows "tags_db_d (handleNotificationMarkAsHandled True now i d)
           = db_update tagId
               (empty_patch \<lparr> status_patch := Some discarded, updatedAt_patch := Some now \<rparr>)
               (tags_db_d d)"
    and "notifications_d (handleNotificationMarkAsHandled True now i d)
           = filter (\<lambda>m. id_ntf m \<noteq> i) (notifications_d d)"
  using assms
  by (simp_all add: handleNotificationMarkAsHandled_def handleNotificationDismiss_def)

lemma handleNotificationMarkAsHandled_warning:
  assumes "find (\<lambda>n. id_ntf n = i) (notifications_d d) = Some n"
    and "type_ntf n = warning"
  shows "tags_db_d (handleNotificationMarkAsHandled db_ok now i d) = tags_db_d d"
    and "notifications_d (handleNotificationMarkAsHandled db_ok now i d)
           = filter (\<lambda>m. id_ntf m \<noteq> i) (notifications_d d)"
  using assms
  by (simp_all add: handleNotificationMarkAsHandled_def handleNotificationDismiss_def
      split: option.splits)

lemma overview_after_load:
  "render_d (loadData True (Some example_location) [] 300
       (initial_dashboard [example_tag ''tag_1'' 0 10 100] []))
   = \<lparr> tags_db_d = [example_tag ''tag_1'' 0 10 100],
       activeTags = [example_tag ''tag_1'' 0 10 100], products_d = [],
       notifications_d = tag_notification_d [] (Some example_location) 300 (example_tag ''tag_1'' 0 10 100),
       overlay_d = \<lparr> currentNotification = Some (hd (tag_notification_d [] (Some example_location) 300 (example_tag ''tag_1'' 0 10 100))),
                     isVisible = True, soundLog = [''expired-tag_1''] \<rparr>,
       errorLog_d = 0, refreshes = 0, isLoading = False \<rparr>"
  by (simp add: render_d_def loadData_def initial_dashboard_def example_location_def
      example_tag_def checkForExpiringTags_d_def tag_notification_d_def showMostCritical_def
      nextNotification_def initial_overlay_def differenceInMinutes_def trunc_div_def
      MILLISECONDS_IN_MINUTE_def remount_def Let_def)

text \<open>
  C7 (the code departs from the claim). In the self-contained component, which the
  application shell mounts, \<open>handleMarkAsHandled\<close> is the same as \<open>handleDismiss\<close>:
  a critical notification marked as handled leaves the list, but no update is issued and
  the expired tag stays \<open>active\<close> in the store. The overview page's
  \<open>handleNotificationMarkAsHandled\<close> does discard the tag on the same input.
\<close>

theorem handleMarkAsHandled_leaves_expired_tag_active:
  "map (\<lambda>n. (id_ntf n, type_ntf n))
       (notifications (run (Some example_user) (Some example_location) [Tick True 300]
          (initial_state [example_tag ''tag_1'' 0 10 100])))
     = [(''expired_tag_1'', critical)]
   \<and> notifications (run (Some example_user) (Some example_location) [Tick True 300, MarkAsHandled]
          (initial_state [example_tag ''tag_1'' 0 10 100])) = []
   \<and> map status_tag (tags_db (run (Some example_user) (Some example_location)
          [Tick True 300, MarkAsHandled] (initial_state [example_tag ''tag_1'' 0 10 100])))
     = [active]
   \<and> map status_tag (tags_db_d (handleMarkAsHandled_d True 300
         (render_d (loadData True (Some example_location) [] 300
            (initial_dashboard [example_tag ''tag_1'' 0 10 100] [])))))
     = [discarded]"
proof -
  have tick: "run (Some example_user) (Some example_location) [Tick True 300]
          (initial_state [example_tag ''tag_1'' 0 10 100])
     = \<lparr> tags_db = [example_tag ''tag_1'' 0 10 100],
         notifications = tag_notification 300 (example_tag ''tag_1'' 0 10 100),
         overlay = \<lparr> currentNotification = Some (hd (tag_notification 300 (example_tag ''tag_1'' 0 10 100))),
                     isVisible = True, soundLog = [''expired_tag_1''] \<rparr>,
         errorLog = 0 \<rparr>"
    by (simp add: run_def checkForExpiringTags_def render_def initial_state_def example_tag_def
        scope_filter_def db_list_active_def newNotifications_def example_user_def
        tag_notification_def isAfter_def showMostCritical_def nextNotification_def
        initial_overlay_def Let_def)
  have n: "map (\<lambda>n. (id_ntf n, type_ntf n)) (tag_notification 300 (example_tag ''tag_1'' 0 10 100))
      = [(''expired_tag_1'', critical)]"
    by (simp add: tag_notification_def example_tag_def isAfter_def Let_def)
  have handled: "run (Some example_user) (Some example_location) [Tick True 300, MarkAsHandled]
          (initial_state [example_tag ''tag_1'' 0 10 100])
      = step (Some example_user) (Some example_location)
          (run (Some example_user) (Some example_location) [Tick True 300]
             (initial_state [example_tag ''tag_1'' 0 10 100])) MarkAsHandled"
    by (simp add: run_def)
  have a: "notifications (run (Some example_user) (Some example_location) [Tick True 300, MarkAsHandled]
          (initial_state [example_tag ''tag_1'' 0 10 100])) = []"
    unfolding handled tick
    by (simp add: handleMarkAsHandled_def render_def tag_notification_def example_tag_def
        isAfter_def Let_def)
  have b: "map status_tag (tags_db (run (Some example_user) (Some example_location)
          [Tick True 300, MarkAsHandled] (initial_state [example_tag ''tag_1'' 0 10 100])))
     = [active]"
    unfolding handled tick
    by (simp add: handleMarkAsHandled_def render_def example_tag_def)
  have c: "map status_tag (tags_db_d (handleMarkAsHandled_d True 300
         (render_d (loadData True (Some example_location) [] 300
            (initial_dashboard [example_tag ''tag_1'' 0 10 100] [])))))
     = [discarded]"
    unfolding overview_after_load
    by (simp add: handleMarkAsHandled_d_def handleNotificationMarkAsHandled_def
        handleNotificationDismiss_def tag_notification_d_def example_tag_def
        differenceInMinutes_def trunc_div_def MILLISECONDS_IN_MINUTE_def Let_def
        db_update_def apply_patch_def empty_patch_def or_else_def)
  from tick n a b c show ?thesis by simp
qed

section \<open>The notification shown\<close>

lemma find_filter: "find P xs = (case filter P xs of [] \<Rightarrow> None | x # _ \<Rightarrow> Some x)"
  by (induction xs) simp_all

lemma nextNotification_find:
  "nextNotification ns =
     (case find (\<lambda>n. type_ntf n = critical) ns of
        Some c \<Rightarrow> Some c
      | None \<Rightarrow> find (\<lambda>n. type_ntf n = warning) ns)"
  by (simp add: nextNotification_def find_filter split: list.splits)

lemma nextNotification_in_set: "nextNotification ns = Some n \<Longrightarrow> n \<in> set ns"
  by (auto simp: nextNotification_find find_Some_iff split: option.splits)

lemma nextNotification_None: "(nextNotification ns = None) = (ns = [])"
proof
  assume none: "nextNotification ns = None"
  show "ns = []"
  proof (cases ns)
    case Nil
    then show ?thesis .
  next
    case (Cons n ns')
    with none show ?thesis
      by (cases "type_ntf n") (auto simp: nextNotification_find find_None_iff split: option.splits)
  qed
next
  assume "ns = []"
  then show "nextNotification ns = None" by (simp add: nextNotification_def)
qed

lemma kind_matches_tag_notification:
  "n \<in> set (tag_notification now tag) \<Longrightarrow> kind_matches_id n"
  by (auto simp: tag_notification_def kind_matches_id_def Let_def split: if_splits)

lemma kind_matches_newNotifications:
  "n \<in> set (newNotifications now tags) \<Longrightarrow> kind_matches_id n"
  by (auto simp: newNotifications_def kind_matches_tag_notification)

lemma same_id_same_type:
  "kind_matches_id a \<Longrightarrow> kind_matches_id b \<Longrightarrow> id_ntf a = id_ntf b \<Longrightarrow> type_ntf a = type_ntf b"
  by (cases "type_ntf a"; cases "type_ntf b") (auto simp: kind_matches_id_def)

lemma render_settled:
  assumes "ready_to_render s"
  shows "settled (render s)"
proof (cases "nextNotification (notifications s)")
  case None
  with assms show ?thesis
    by (simp add: settled_def ready_to_render_def render_def showMostCritical_def)
next
  case (Some n)
  then have n_in: "n \<in> set (notifications s)" by (rule nextNotification_in_set)
  show ?thesis
  proof (cases "map_option id_ntf (currentNotification (overlay s)) = Some (id_ntf n)")
    case True
    then obtain c where c: "currentNotification (overlay s) = Some c" "id_ntf c = id_ntf n"
      by auto
    with assms n_in have "kind_matches_id c" "isVisible (overlay s)"
      by (auto simp: ready_to_render_def)
    with assms c Some True show ?thesis
      by (simp add: settled_def ready_to_render_def render_def showMostCritical_def)
  next
    case False
    with assms Some n_in show ?thesis
      by (simp add: settled_def ready_to_render_def render_def showMostCritical_def)
  qed
qed

lemma settled_ready: "settled s \<Longrightarrow> ready_to_render s"
  by (auto simp: settled_def ready_to_render_def split: option.splits)

lemma settled_initial: "settled (initial_state db)"
  by (simp add: settled_def initial_state_def initial_overlay_def nextNotification_def)

lemma ready_after_fetch:
  "settled s \<Longrightarrow> ready_to_render (checkForExpiringTags True user selectedLocation now s)"
  by (auto simp: settled_def ready_to_render_def checkForExpiringTags_def
      kind_matches_newNotifications split: option.splits)

lemma ready_after_dismiss: "settled s \<Longrightarrow> ready_to_render (handleDismiss s)"
  by (auto simp: settled_def ready_to_render_def handleDismiss_def split: option.splits)

lemma ready_after_handled: "settled s \<Longrightarrow> ready_to_render (handleMarkAsHandled s)"
  by (auto simp: settled_def ready_to_render_def handleMarkAsHandled_def split: option.splits)

lemma step_settled: "settled s \<Longrightarrow> settled (step user selectedLocation s e)"
proof (cases e)
  case (Tick fetch_ok now)
  assume s: "settled s"
  show ?thesis
  proof (cases fetch_ok)
    case True
    with s Tick show ?thesis by (simp add: render_settled ready_after_fetch)
  next
    case False
    with s Tick show ?thesis
      by (simp add: checkForExpiringTags_def settled_def split: option.splits)
  qed
next
  case Dismiss
  assume s: "settled s"
  show ?thesis
  proof (cases "currentNotification (overlay s)")
    case None
    with s Dismiss show ?thesis by (simp add: handleDismiss_def)
  next
    case (Some c)
    with s Dismiss show ?thesis by (simp add: render_settled ready_after_dismiss)
  qed
next
  case MarkAsHandled
  assume s: "settled s"
  show ?thesis
  proof (cases "currentNotification (overlay s)")
    case None
    with s MarkAsHandled show ?thesis by (simp add: handleMarkAsHandled_def)
  next
    case (Some c)
    with s MarkAsHandled show ?thesis by (simp add: render_settled ready_after_handled)
  qed
next
  case (Store db)
  assume "settled s"
  with Store show ?thesis by (simp add: settled_def split: option.splits)
qed

lemma run_settled: "settled s \<Longrightarrow> settled (run user selectedLocation evs s)"
  unfolding run_def by (induction evs arbitrary: s) (simp_all add: step_settled)

lemma settled_render_id: "settled s \<Longrightarrow> render s = s"
  by (cases "nextNotification (notifications s)")
    (auto simp: settled_def render_def showMostCritical_def split: option.splits)

text \<open>
  The effect sets the current notification, which makes the framework run it once more;
  the second run changes nothing. The lemmas after it are the selection rule for any
  list and overlay, as both versions of the component run it.
\<close>

lemma showMostCritical_idempotent:
  "showMostCritical ns (showMostCritical ns ov) = showMostCritical ns ov"
  by (cases "nextNotification ns") (auto simp: showMostCritical_def)

lemma showMostCritical_id:
  "map_option id_ntf (currentNotification (showMostCritical ns ov))
     = map_option id_ntf
         (case find (\<lambda>n. type_ntf n = critical) ns of
            Some c \<Rightarrow> Some c
          | None \<Rightarrow> find (\<lambda>n. type_ntf n = warning) ns)"
proof (cases "nextNotification ns")
  case None
  then show ?thesis
    by (simp add: showMostCritical_def nextNotification_find [symmetric])
next
  case (Some n)
  then show ?thesis
    by (cases "map_option id_ntf (currentNotification ov) = Some (id_ntf n)")
      (simp_all add: showMostCritical_def nextNotification_find [symmetric])
qed

lemma showMostCritical_selects:
  assumes "\<forall>c. currentNotification ov = Some c \<longrightarrow>
             (\<forall>n \<in> set ns. id_ntf n = id_ntf c \<longrightarrow> type_ntf n = type_ntf c \<and> isVisible ov)"
  shows "case find (\<lambda>n. type_ntf n = critical) ns of
           Some c \<Rightarrow>
             (\<exists>cur. currentNotification (showMostCritical ns ov) = Some cur
                    \<and> isVisible (showMostCritical ns ov)
                    \<and> type_ntf cur = critical \<and> id_ntf cur = id_ntf c)
         | None \<Rightarrow>
             (case find (\<lambda>n. type_ntf n = warning) ns of
                Some w \<Rightarrow>
                  (\<exists>cur. currentNotification (showMostCritical ns ov) = Some cur
                         \<and> isVisible (showMostCritical ns ov)
                         \<and> type_ntf cur = warning \<and> id_ntf cur = id_ntf w)
              | None \<Rightarrow> currentNotification (showMostCritical ns ov) = None
                         \<and> \<not> isVisible (showMostCritical ns ov))"
proof (cases "nextNotification ns")
  case None
  then show ?thesis
    by (auto simp: showMostCritical_def nextNotification_find split: option.splits)
next
  case (Some n)
  then have n_in: "n \<in> set ns" by (rule nextNotification_in_set)
  have front: "\<exists>cur. currentNotification (showMostCritical ns ov) = Some cur
                    \<and> isVisible (showMostCritical ns ov)
                    \<and> type_ntf cur = type_ntf n \<and> id_ntf cur = id_ntf n"
  proof (cases "map_option id_ntf (currentNotification ov) = Some (id_ntf n)")
    case True
    then obtain c where c: "currentNotification ov = Some c" "id_ntf c = id_ntf n" by auto
    with assms n_in have "type_ntf n = type_ntf c" "isVisible ov" by auto
    with c Some True show ?thesis by (simp add: showMostCritical_def)
  next
    case False
    with Some show ?thesis by (simp add: showMostCritical_def)
  qed
  show ?thesis
  proof (cases "find (\<lambda>n. type_ntf n = critical) ns")
    case c: (Some c)
    with Some have "n = c" "type_ntf c = critical"
      by (auto simp: nextNotification_find find_Some_iff)
    with c front show ?thesis by simp
  next
    case None
    with Some have w: "find (\<lambda>n. type_ntf n = warning) ns = Some n"
      by (simp add: nextNotification_find)
    then have "type_ntf n = warning" by (auto simp: find_Some_iff)
    with None w front show ?thesis by simp
  qed
qed

lemma reachable_selects:
  assumes st: "settled s"
  shows "(case find (\<lambda>n. type_ntf n = critical) (notifications s) of
            Some c \<Rightarrow>
              (\<exists>cur. currentNotification (overlay s) = Some cur \<and> isVisible (overlay s)
                     \<and> type_ntf cur = critical \<and> id_ntf cur = id_ntf c)
          | None \<Rightarrow>
              (case find (\<lambda>n. type_ntf n = warning) (notifications s) of
                 Some w \<Rightarrow>
                   (\<exists>cur. currentNotification (overlay s) = Some cur \<and> isVisible (overlay s)
                          \<and> type_ntf cur = warning \<and> id_ntf cur = id_ntf w)
               | None \<Rightarrow> currentNotification (overlay s) = None \<and> \<not> isVisible (overlay s)))"
proof -
  have fixed: "showMostCritical (notifications s) (overlay s) = overlay s"
    using st
    by (cases "nextNotification (notifications s)")
      (auto simp: settled_def showMostCritical_def split: option.splits)
  have hyp: "\<forall>c. currentNotification (overlay s) = Some c \<longrightarrow>
             (\<forall>n \<in> set (notifications s). id_ntf n = id_ntf c
                \<longrightarrow> type_ntf n = type_ntf c \<and> isVisible (overlay s))"
    using st by (auto simp: settled_def intro: same_id_same_type split: option.splits)
  from showMostCritical_selects [OF hyp] show ?thesis unfolding fixed .
qed

text \<open>
  C3. At most one notification is current: the overlay holds an optional one. For any
  list and any overlay, the effect leaves current a notification with the id of the
  first critical one in list order if the list holds a critical one, else of the first
  warning, and nothing if the list is empty. If moreover a listed notification with the
  id of the one that was current has its severity and that one was shown (which holds in
  the component, whose ids tell the severity), then the notification left current is
  shown and is critical whenever the list holds a critical one, wherever in the list it
  stands: no warning is shown while a critical notification is in the list. In every
  state the self-contained component reaches, the overlay is in that relation to the
  list.
\<close>

theorem current_notification_priority:
  fixes user selectedLocation evs db
  defines "s \<equiv> run user selectedLocation evs (initial_state db)"
  shows "map_option id_ntf (currentNotification (showMostCritical ns ov))
           = map_option id_ntf
               (case find (\<lambda>n. type_ntf n = critical) ns of
                  Some c \<Rightarrow> Some c
                | None \<Rightarrow> find (\<lambda>n. type_ntf n = warning) ns)
         \<and> ((\<forall>c. currentNotification ov = Some c \<longrightarrow>
                (\<forall>n \<in> set ns. id_ntf n = id_ntf c \<longrightarrow> type_ntf n = type_ntf c \<and> isVisible ov))
              \<longrightarrow>
              (case find (\<lambda>n. type_ntf n = critical) ns of
                 Some c \<Rightarrow>
                   (\<exists>cur. currentNotification (showMostCritical ns ov) = Some cur
                          \<and> isVisible (showMostCritical ns ov)
                          \<and> type_ntf cur = critical \<and> id_ntf cur = id_ntf c)
               | None \<Rightarrow>
                   (case find (\<lambda>n. type_ntf n = warning) ns of
                      Some w \<Rightarrow>
                        (\<exists>cur. currentNotification (showMostCritical ns ov) = Some cur
                               \<and> isVisible (showMostCritical ns ov)
                               \<and> type_ntf cur = warning \<and> id_ntf cur = id_ntf w)
                    | None \<Rightarrow> currentNotification (showMostCritical ns ov) = None
                               \<and> \<not> isVisible (showMostCritical ns ov))))
         \<and> (case find (\<lambda>n. type_ntf n = critical) (notifications s) of
               Some c \<Rightarrow>
                 (\<exists>cur. currentNotification (overlay s) = Some cur \<and> isVisible (overlay s)
                        \<and> type_ntf cur = critical \<and> id_ntf cur = id_ntf c)
             | None \<Rightarrow>
                 (case find (\<lambda>n. type_ntf n = warning) (notifications s) of
                    Some w \<Rightarrow>
                      (\<exists>cur. currentNotification (overlay s) = Some cur \<and> isVisible (overlay s)
                             \<and> type_ntf cur = warning \<and> id_ntf cur = id_ntf w)
                  | None \<Rightarrow> currentNotification (overlay s) = None
                             \<and> \<not> isVisible (overlay s)))
         \<and> ((\<exists>n \<in> set (notifications s). type_ntf n = critical)
              \<longrightarrow> (\<exists>cur. currentNotification (overlay s) = Some cur \<and> isVisible (overlay s)
                         \<and> type_ntf cur = critical))"
proof -
  have st: "settled s" unfolding s_def by (rule run_settled [OF settled_initial])
  note main = reachable_selects [OF st]
  have live: "\<exists>cur. currentNotification (overlay s) = Some cur \<and> isVisible (overlay s)
                         \<and> type_ntf cur = critical"
    if "\<exists>n \<in> set (notifications s). type_ntf n = critical"
  proof -
    from that obtain c where "find (\<lambda>n. type_ntf n = critical) (notifications s) = Some c"
      by (cases "find (\<lambda>n. type_ntf n = critical) (notifications s)")
        (auto simp: find_None_iff)
    with main show ?thesis by auto
  qed
  from showMostCritical_id [of ns ov] showMostCritical_selects [of ov ns] main live
  show ?thesis by blast
qed

theorem current_notification_priority_witness:
  "map_option (\<lambda>n. (id_ntf n, type_ntf n))
       (currentNotification (showMostCritical
          [example_notification ''expiring_a'' warning,
           example_notification ''expired_b'' critical,
           example_notification ''expired_c'' critical] initial_overlay))
     = Some (''expired_b'', critical)
   \<and> isVisible (showMostCritical
          [example_notification ''expiring_a'' warning,
           example_notification ''expired_b'' critical,
           example_notification ''expired_c'' critical] initial_overlay)
   \<and> (\<exists>n \<in> set (notifications (run (Some example_user) (Some example_location) [Tick True 300]
        (initial_state [example_tag ''tag_1'' 0 10 1000, example_tag ''tag_2'' 0 10 100]))).
      type_ntf n = critical)
   \<and> (\<exists>cur. currentNotification (overlay (run (Some example_user) (Some example_location)
           [Tick True 300]
           (initial_state [example_tag ''tag_1'' 0 10 1000, example_tag ''tag_2'' 0 10 100])))
          = Some cur \<and> type_ntf cur = critical)"
proof -
  note inst = current_notification_priority [of
      "[example_notification ''expiring_a'' warning,
        example_notification ''expired_b'' critical,
        example_notification ''expired_c'' critical]" initial_overlay
      "Some example_user" "Some example_location"
      "[Tick True 300]" "[example_tag ''tag_1'' 0 10 1000, example_tag ''tag_2'' 0 10 100]"]
  have fresh: "\<forall>c. currentNotification initial_overlay = Some c \<longrightarrow>
      (\<forall>n \<in> set [example_notification ''expiring_a'' warning,
                   example_notification ''expired_b'' critical,
                   example_notification ''expired_c'' critical].
         id_ntf n = id_ntf c \<longrightarrow> type_ntf n = type_ntf c \<and> isVisible initial_overlay)"
    by (simp add: initial_overlay_def)
  from mp [OF conjunct1 [OF conjunct2 [OF inst]] fresh]
  have front: "\<exists>cur. currentNotification (showMostCritical
          [example_notification ''expiring_a'' warning,
           example_notification ''expired_b'' critical,
           example_notification ''expired_c'' critical] initial_overlay) = Some cur
      \<and> isVisible (showMostCritical
          [example_notification ''expiring_a'' warning,
           example_notification ''expired_b'' critical,
           example_notification ''expired_c'' critical] initial_overlay)
      \<and> type_ntf cur = critical \<and> id_ntf cur = ''expired_b''"
    by (simp add: example_notification_def)
  have live: "\<exists>n \<in> set (notifications (run (Some example_user) (Some example_location)
        [Tick True 300]
        (initial_state [example_tag ''tag_1'' 0 10 1000, example_tag ''tag_2'' 0 10 100]))).
      type_ntf n = critical"
    by (simp add: run_def checkForExpiringTags_def render_def initial_state_def example_tag_def
        example_user_def scope_filter_def db_list_active_def newNotifications_def
        tag_notification_def isAfter_def Let_def)
  from mp [OF conjunct2 [OF conjunct2 [OF conjunct2 [OF inst]]] live]
  have shown: "\<exists>cur. currentNotification (overlay (run (Some example_user)
           (Some example_location) [Tick True 300]
           (initial_state [example_tag ''tag_1'' 0 10 1000, example_tag ''tag_2'' 0 10 100])))
          = Some cur \<and> type_ntf cur = critical"
    by blast
  from front live shown show ?thesis by auto
qed

section \<open>The audible signal\<close>

lemma showMostCritical_sound:
  "soundLog (showMostCritical ns ov)
     = soundLog ov
       @ (case currentNotification (showMostCritical ns ov) of
            Some c \<Rightarrow>
              if type_ntf c = critical
                 \<and> map_option id_ntf (currentNotification ov) \<noteq> Some (id_ntf c)
              then [id_ntf c] else []
          | None \<Rightarrow> [])"
  by (cases "nextNotification ns"; cases "currentNotification ov")
    (auto simp: showMostCritical_def)

lemma render_sound:
  "soundLog (overlay (render s))
     = soundLog (overlay s)
       @ (case currentNotification (overlay (render s)) of
            Some c \<Rightarrow>
              if type_ntf c = critical
                 \<and> map_option id_ntf (currentNotification (overlay s)) \<noteq> Some (id_ntf c)
              then [id_ntf c] else []
          | None \<Rightarrow> [])"
  using showMostCritical_sound [of "notifications s" "overlay s"] by (simp add: render_def)

lemma handleDismiss_overlay:
  "currentNotification (overlay (handleDismiss s)) = currentNotification (overlay s)"
  "soundLog (overlay (handleDismiss s)) = soundLog (overlay s)"
  by (simp_all add: handleDismiss_def split: option.splits)

lemma handleMarkAsHandled_overlay:
  "currentNotification (overlay (handleMarkAsHandled s)) = currentNotification (overlay s)"
  "soundLog (overlay (handleMarkAsHandled s)) = soundLog (overlay s)"
  by (simp_all add: handleMarkAsHandled_def split: option.splits)

lemma checkForExpiringTags_overlay:
  "overlay (checkForExpiringTags fetch_ok user selectedLocation now s) = overlay s"
  by (simp add: checkForExpiringTags_def)

lemma dismiss_sound:
  "soundLog (overlay (render (handleDismiss s)))
     = soundLog (overlay s)
       @ (case currentNotification (overlay (render (handleDismiss s))) of
            Some c' \<Rightarrow>
              if type_ntf c' = critical
                 \<and> map_option id_ntf (currentNotification (overlay s)) \<noteq> Some (id_ntf c')
              then [id_ntf c'] else []
          | None \<Rightarrow> [])"
  using render_sound [of "handleDismiss s"] unfolding handleDismiss_overlay .

lemma handled_sound:
  "soundLog (overlay (render (handleMarkAsHandled s)))
     = soundLog (overlay s)
       @ (case currentNotification (overlay (render (handleMarkAsHandled s))) of
            Some c' \<Rightarrow>
              if type_ntf c' = critical
                 \<and> map_option id_ntf (currentNotification (overlay s)) \<noteq> Some (id_ntf c')
              then [id_ntf c'] else []
          | None \<Rightarrow> [])"
  using render_sound [of "handleMarkAsHandled s"] unfolding handleMarkAsHandled_overlay .

lemma fetch_sound:
  "soundLog (overlay (render (checkForExpiringTags fetch_ok user selectedLocation now s)))
     = soundLog (overlay s)
       @ (case currentNotification
                 (overlay (render (checkForExpiringTags fetch_ok user selectedLocation now s))) of
            Some c' \<Rightarrow>
              if type_ntf c' = critical
                 \<and> map_option id_ntf (currentNotification (overlay s)) \<noteq> Some (id_ntf c')
              then [id_ntf c'] else []
          | None \<Rightarrow> [])"
  using render_sound [of "checkForExpiringTags fetch_ok user selectedLocation now s"]
  unfolding checkForExpiringTags_overlay .

lemma unchanged_sound:
  "currentNotification ov' = currentNotification ov \<Longrightarrow> soundLog ov' = soundLog ov
   \<Longrightarrow> soundLog ov'
     = soundLog ov
       @ (case currentNotification ov' of
            Some c' \<Rightarrow>
              if type_ntf c' = critical
                 \<and> map_option id_ntf (currentNotification ov) \<noteq> Some (id_ntf c')
              then [id_ntf c'] else []
          | None \<Rightarrow> [])"
  by (cases "currentNotification ov") auto

lemma step_sound:
  "soundLog (overlay (step user selectedLocation s e))
     = soundLog (overlay s)
       @ (case currentNotification (overlay (step user selectedLocation s e)) of
            Some c \<Rightarrow>
              if type_ntf c = critical
                 \<and> map_option id_ntf (currentNotification (overlay s)) \<noteq> Some (id_ntf c)
              then [id_ntf c] else []
          | None \<Rightarrow> [])"
proof (cases e)
  case (Tick fetch_ok now)
  show ?thesis
  proof (cases "user \<noteq> None \<and> selectedLocation \<noteq> None \<and> fetch_ok")
    case True
    with Tick fetch_sound [of True user selectedLocation now s] show ?thesis by simp
  next
    case False
    with Tick show ?thesis
      by (intro unchanged_sound) (auto simp: checkForExpiringTags_overlay)
  qed
next
  case Dismiss
  show ?thesis
  proof (cases "currentNotification (overlay s)")
    case None
    with Dismiss show ?thesis
      by (intro unchanged_sound) (simp_all add: handleDismiss_overlay)
  next
    case (Some c)
    with Dismiss dismiss_sound [of s] show ?thesis by simp
  qed
next
  case MarkAsHandled
  show ?thesis
  proof (cases "currentNotification (overlay s)")
    case None
    with MarkAsHandled show ?thesis
      by (intro unchanged_sound) (simp_all add: handleMarkAsHandled_overlay)
  next
    case (Some c)
    with MarkAsHandled handled_sound [of s] show ?thesis by simp
  qed
next
  case (Store db)
  then show ?thesis by (intro unchanged_sound) simp_all
qed

text \<open>
  C4 (amended). In every state the component reaches, and for every event, the signal is
  played in that step exactly when the step leaves a critical notification current whose
  id differs from the id of the notification that was current before; it is then played
  once. In particular a poll after which the list still puts first the notification
  that is current plays nothing: the signal is not repeated on the polls during which a
  critical notification stays the current one.
\<close>

theorem sound_when_critical_becomes_current:
  fixes user selectedLocation evs db e
  defines "s \<equiv> run user selectedLocation evs (initial_state db)"
  defines "s' \<equiv> step user selectedLocation (run user selectedLocation evs (initial_state db)) e"
  shows "soundLog (overlay s')
           = soundLog (overlay s)
             @ (case currentNotification (overlay s') of
                  Some c \<Rightarrow>
                    if type_ntf c = critical
                       \<and> map_option id_ntf (currentNotification (overlay s)) \<noteq> Some (id_ntf c)
                    then [id_ntf c] else []
                | None \<Rightarrow> [])
         \<and> ((\<exists>c n. currentNotification (overlay s) = Some c
                    \<and> nextNotification (notifications s') = Some n \<and> id_ntf n = id_ntf c)
              \<longrightarrow> soundLog (overlay s') = soundLog (overlay s))"
proof -
  have a: "soundLog (overlay s')
           = soundLog (overlay s)
             @ (case currentNotification (overlay s') of
                  Some c \<Rightarrow>
                    if type_ntf c = critical
                       \<and> map_option id_ntf (currentNotification (overlay s)) \<noteq> Some (id_ntf c)
                    then [id_ntf c] else []
                | None \<Rightarrow> [])"
    unfolding s_def s'_def by (rule step_sound)
  have st: "settled s'"
    unfolding s'_def by (intro step_settled run_settled settled_initial)
  have b: "soundLog (overlay s') = soundLog (overlay s)"
    if "\<exists>c n. currentNotification (overlay s) = Some c
                    \<and> nextNotification (notifications s') = Some n \<and> id_ntf n = id_ntf c"
  proof -
    from that obtain c n where c: "currentNotification (overlay s) = Some c"
      and n: "nextNotification (notifications s') = Some n" "id_ntf n = id_ntf c"
      by blast
    from st n obtain c' where c': "currentNotification (overlay s') = Some c'"
      "id_ntf c' = id_ntf n"
      by (auto simp: settled_def split: option.splits)
    with a c n show ?thesis by simp
  qed
  from a b show ?thesis by blast
qed

lemma run_tick_one_expired:
  "run (Some example_user) (Some example_location) [Tick True 300]
      (initial_state [example_tag ''tag_1'' 0 10 100])
   = \<lparr> tags_db = [example_tag ''tag_1'' 0 10 100],
       notifications = tag_notification 300 (example_tag ''tag_1'' 0 10 100),
       overlay = \<lparr> currentNotification = Some (hd (tag_notification 300 (example_tag ''tag_1'' 0 10 100))),
                   isVisible = True, soundLog = [''expired_tag_1''] \<rparr>,
       errorLog = 0 \<rparr>"
  by (simp add: run_def checkForExpiringTags_def render_def initial_state_def example_tag_def
      scope_filter_def db_list_active_def newNotifications_def example_user_def
      tag_notification_def isAfter_def showMostCritical_def nextNotification_def
      initial_overlay_def Let_def)

lemma run_snoc: "run u l (evs @ [e]) s = step u l (run u l evs s) e"
  by (simp add: run_def)

lemma run_dismiss_one_expired:
  "run (Some example_user) (Some example_location) [Tick True 300, Dismiss]
      (initial_state [example_tag ''tag_1'' 0 10 100])
   = \<lparr> tags_db = [example_tag ''tag_1'' 0 10 100],
       notifications = [],
       overlay = \<lparr> currentNotification = None, isVisible = False, soundLog = [''expired_tag_1''] \<rparr>,
       errorLog = 0 \<rparr>"
  using run_snoc [of "Some example_user" "Some example_location" "[Tick True 300]" Dismiss
      "initial_state [example_tag ''tag_1'' 0 10 100]"]
  unfolding run_tick_one_expired
  by (simp add: handleDismiss_def render_def showMostCritical_def nextNotification_def
      tag_notification_def example_tag_def isAfter_def Let_def)

lemma run_again_one_expired:
  "run (Some example_user) (Some example_location) [Tick True 300, Dismiss, Tick True 400]
      (initial_state [example_tag ''tag_1'' 0 10 100])
   = \<lparr> tags_db = [example_tag ''tag_1'' 0 10 100],
       notifications = tag_notification 400 (example_tag ''tag_1'' 0 10 100),
       overlay = \<lparr> currentNotification = Some (hd (tag_notification 400 (example_tag ''tag_1'' 0 10 100))),
                   isVisible = True, soundLog = [''expired_tag_1'', ''expired_tag_1''] \<rparr>,
       errorLog = 0 \<rparr>"
  using run_snoc [of "Some example_user" "Some example_location" "[Tick True 300, Dismiss]"
      "Tick True 400" "initial_state [example_tag ''tag_1'' 0 10 100]"]
  unfolding run_dismiss_one_expired
  by (simp add: checkForExpiringTags_def render_def example_tag_def
      scope_filter_def db_list_active_def newNotifications_def example_user_def
      tag_notification_def isAfter_def showMostCritical_def nextNotification_def Let_def)

lemma run_tick_two_expired:
  "run (Some example_user) (Some example_location) [Tick True 300]
      (initial_state [example_tag ''tag_1'' 0 10 100, example_tag ''tag_2'' 0 10 200])
   = \<lparr> tags_db = [example_tag ''tag_1'' 0 10 100, example_tag ''tag_2'' 0 10 200],
       notifications = tag_notification 300 (example_tag ''tag_1'' 0 10 100)
                       @ tag_notification 300 (example_tag ''tag_2'' 0 10 200),
       overlay = \<lparr> currentNotification =
                     Some (hd (tag_notification 300 (example_tag ''tag_1'' 0 10 100))),
                   isVisible = True, soundLog = [''expired_tag_1''] \<rparr>,
       errorLog = 0 \<rparr>"
  by (simp add: run_def checkForExpiringTags_def render_def initial_state_def example_tag_def
      scope_filter_def db_list_active_def newNotifications_def example_user_def
      tag_notification_def isAfter_def showMostCritical_def nextNotification_def
      initial_overlay_def Let_def)

theorem sound_when_critical_becomes_current_witness:
  "(\<exists>c n. currentNotification (overlay (run (Some example_user) (Some example_location)
               [Tick True 300] (initial_state [example_tag ''tag_1'' 0 10 100]))) = Some c
          \<and> nextNotification (notifications (step (Some example_user) (Some example_location)
               (run (Some example_user) (Some example_location) [Tick True 300]
                  (initial_state [example_tag ''tag_1'' 0 10 100])) (Tick True 400))) = Some n
          \<and> id_ntf n = id_ntf c)
   \<and> soundLog (overlay (step (Some example_user) (Some example_location)
         (run (Some example_user) (Some example_location) [Tick True 300]
            (initial_state [example_tag ''tag_1'' 0 10 100])) (Tick True 400)))
       = [''expired_tag_1'']"
proof -
  have same: "\<exists>c n. currentNotification (overlay (run (Some example_user) (Some example_location)
               [Tick True 300] (initial_state [example_tag ''tag_1'' 0 10 100]))) = Some c
          \<and> nextNotification (notifications (step (Some example_user) (Some example_location)
               (run (Some example_user) (Some example_location) [Tick True 300]
                  (initial_state [example_tag ''tag_1'' 0 10 100])) (Tick True 400))) = Some n
          \<and> id_ntf n = id_ntf c"
    unfolding run_tick_one_expired
    by (simp add: checkForExpiringTags_def render_def example_tag_def
        scope_filter_def db_list_active_def newNotifications_def example_user_def
        tag_notification_def isAfter_def showMostCritical_def nextNotification_def Let_def)
  have before: "soundLog (overlay (run (Some example_user) (Some example_location)
               [Tick True 300] (initial_state [example_tag ''tag_1'' 0 10 100])))
       = [''expired_tag_1'']"
    unfolding run_tick_one_expired by simp
  have unchanged: "soundLog (overlay (step (Some example_user) (Some example_location)
         (run (Some example_user) (Some example_location) [Tick True 300]
            (initial_state [example_tag ''tag_1'' 0 10 100])) (Tick True 400)))
       = soundLog (overlay (run (Some example_user) (Some example_location)
               [Tick True 300] (initial_state [example_tag ''tag_1'' 0 10 100])))"
    by (rule mp [OF conjunct2 [OF sound_when_critical_becomes_current] same])
  from unchanged before have after: "soundLog (overlay (step (Some example_user)
         (Some example_location)
         (run (Some example_user) (Some example_location) [Tick True 300]
            (initial_state [example_tag ''tag_1'' 0 10 100])) (Tick True 400)))
       = [''expired_tag_1'']"
    by (rule trans)
  show ?thesis by (rule conjI [OF same after])
qed

text \<open>
  C4 (as stated, refuted). One tag, expired and left active throughout. The first poll
  shows its critical notification and plays the signal; the operator dismisses it; the
  next poll builds the same notification again, shows it and plays the signal a second
  time. And when a poll finds two expired tags, only the one put first plays the signal.
\<close>

theorem sound_replayed_counterexample:
  "soundLog (overlay (run (Some example_user) (Some example_location)
      [Tick True 300, Dismiss, Tick True 400] (initial_state [example_tag ''tag_1'' 0 10 100])))
     = [''expired_tag_1'', ''expired_tag_1'']
   \<and> map (\<lambda>t. (id_tag t, status_tag t, discardTime_tag t))
        (tags_db (run (Some example_user) (Some example_location)
           [Tick True 300, Dismiss, Tick True 400] (initial_state [example_tag ''tag_1'' 0 10 100])))
     = [(''tag_1'', active, 100)]
   \<and> map id_ntf (notifications (run (Some example_user) (Some example_location) [Tick True 300]
        (initial_state [example_tag ''tag_1'' 0 10 100, example_tag ''tag_2'' 0 10 200])))
     = [''expired_tag_1'', ''expired_tag_2'']
   \<and> soundLog (overlay (run (Some example_user) (Some example_location) [Tick True 300]
        (initial_state [example_tag ''tag_1'' 0 10 100, example_tag ''tag_2'' 0 10 200])))
     = [''expired_tag_1'']"
  unfolding run_again_one_expired run_tick_two_expired by (simp add: example_tag_def tag_notification_def isAfter_def Let_def)

section \<open>The live set across polls\<close>

text \<open>
  C5 (as stated, refuted). The notification of an expired tag is dismissed and leaves the
  list; the next poll, the tag being still active and expired, puts it back.
\<close>

theorem dismissed_event_raised_again_counterexample:
  "map id_ntf (notifications (run (Some example_user) (Some example_location)
      [Tick True 300] (initial_state [example_tag ''tag_1'' 0 10 100])))
     = [''expired_tag_1'']
   \<and> map id_ntf (notifications (run (Some example_user) (Some example_location)
      [Tick True 300, Dismiss] (initial_state [example_tag ''tag_1'' 0 10 100])))
     = []
   \<and> map id_ntf (notifications (run (Some example_user) (Some example_location)
      [Tick True 300, Dismiss, Tick True 400] (initial_state [example_tag ''tag_1'' 0 10 100])))
     = [''expired_tag_1'']"
  unfolding run_again_one_expired run_dismiss_one_expired run_tick_one_expired
  by (simp add: tag_notification_def example_tag_def isAfter_def Let_def)

lemma expired_id_in_tag_notification:
  "(''expired_'' @ i \<in> id_ntf ` set (tag_notification now t))
     = (id_tag t = i \<and> discardTime_tag t < now)"
  by (auto simp: tag_notification_def Let_def isAfter_def)

lemma expiring_id_in_tag_notification:
  "(''expiring_'' @ i \<in> id_ntf ` set (tag_notification now t))
     = (id_tag t = i \<and> now \<le> discardTime_tag t
        \<and> discardTime_tag t - now < 31 * MILLISECONDS_IN_MINUTE)"
  by (auto simp: tag_notification_def Let_def isAfter_def differenceInMinutes_le_iff
      MILLISECONDS_IN_MINUTE_def)

lemma set_db_list_active:
  "set (db_list_active db) = {t \<in> set db. status_tag t = active}"
  by (auto simp: db_list_active_def)

text \<open>
  C5 (amended). A successful poll replaces the list by the one computed from the tags
  fetched at that poll, whatever the list was before (no comparison with the previous
  poll is made): afterwards, for a tag id none of whose fetched tags has its discard
  instant at the very instant of the poll, the list holds the \<open>expired\<close> notification
  of that id iff a fetched tag with that id is past its discard time, and the
  \<open>expiring\<close> one iff a fetched tag with that id has a positive time left of less than
  31 minutes. Dismissing removes from the list the notifications with the id of the
  current one and writes nothing to the store, and marking as handled removes them from
  the list as well; so after a dismissal the next successful poll raises the
  notification again while its condition lasts.
\<close>

theorem live_set_recomputed_each_poll:
  fixes user selectedLocation now s
  defines "fetched \<equiv> scope_filter user selectedLocation (db_list_active (tags_db s))"
  defines "s' \<equiv> checkForExpiringTags True user selectedLocation now s"
  shows "(tags_db r = tags_db s \<longrightarrow>
            notifications (checkForExpiringTags True user selectedLocation now r) = notifications s')
       \<and> ((\<forall>t \<in> set fetched. id_tag t = i \<longrightarrow> discardTime_tag t \<noteq> now) \<longrightarrow>
            ((''expired_'' @ i \<in> id_ntf ` set (notifications s'))
               = (\<exists>t \<in> set fetched. id_tag t = i \<and> discardTime_tag t \<le> now))
            \<and> ((''expiring_'' @ i \<in> id_ntf ` set (notifications s'))
               = (\<exists>t \<in> set fetched. id_tag t = i \<and> 0 < discardTime_tag t - now
                    \<and> discardTime_tag t - now < 31 * MILLISECONDS_IN_MINUTE)))
       \<and> (currentNotification (overlay s) = Some c \<longrightarrow>
            notifications (handleDismiss s)
              = filter (\<lambda>n. id_ntf n \<noteq> id_ntf c) (notifications s)
            \<and> notifications (handleMarkAsHandled s)
              = filter (\<lambda>n. id_ntf n \<noteq> id_ntf c) (notifications s)
            \<and> tags_db (handleDismiss s) = tags_db s)
       \<and> (\<forall>t \<in> set (scope_filter user selectedLocation (db_list_active (tags_db (handleDismiss s)))).
            discardTime_tag t < now \<longrightarrow>
            ''expired_'' @ id_tag t
              \<in> id_ntf ` set (notifications
                    (checkForExpiringTags True user selectedLocation now (handleDismiss s))))"
proof -
  have ns: "notifications s' = newNotifications now fetched"
    by (simp add: s'_def fetched_def checkForExpiringTags_def)
  have a: "tags_db r = tags_db s \<longrightarrow>
            notifications (checkForExpiringTags True user selectedLocation now r) = notifications s'"
    by (simp add: s'_def checkForExpiringTags_def)
  have b: "(''expired_'' @ i \<in> id_ntf ` set (notifications s'))
            = (\<exists>t \<in> set fetched. id_tag t = i \<and> discardTime_tag t < now)"
    using expired_id_in_tag_notification [of i now]
    by (auto simp: ns newNotifications_def image_iff)
  have c: "(''expiring_'' @ i \<in> id_ntf ` set (notifications s'))
            = (\<exists>t \<in> set fetched. id_tag t = i \<and> now \<le> discardTime_tag t
                 \<and> discardTime_tag t - now < 31 * MILLISECONDS_IN_MINUTE)"
    using expiring_id_in_tag_notification [of i now]
    by (auto simp: ns newNotifications_def image_iff)
  have bc: "((''expired_'' @ i \<in> id_ntf ` set (notifications s'))
               = (\<exists>t \<in> set fetched. id_tag t = i \<and> discardTime_tag t \<le> now))
            \<and> ((''expiring_'' @ i \<in> id_ntf ` set (notifications s'))
               = (\<exists>t \<in> set fetched. id_tag t = i \<and> 0 < discardTime_tag t - now
                    \<and> discardTime_tag t - now < 31 * MILLISECONDS_IN_MINUTE))"
    if off: "\<forall>t \<in> set fetched. id_tag t = i \<longrightarrow> discardTime_tag t \<noteq> now"
  proof -
    have "(discardTime_tag t \<le> now) = (discardTime_tag t < now)"
      and "(0 < discardTime_tag t - now) = (now \<le> discardTime_tag t)"
      if "t \<in> set fetched" "id_tag t = i" for t
      using off that by auto
    with b c show ?thesis by auto
  qed
  have d: "currentNotification (overlay s) = Some c \<longrightarrow>
            notifications (handleDismiss s)
              = filter (\<lambda>n. id_ntf n \<noteq> id_ntf c) (notifications s)
            \<and> notifications (handleMarkAsHandled s)
              = filter (\<lambda>n. id_ntf n \<noteq> id_ntf c) (notifications s)
            \<and> tags_db (handleDismiss s) = tags_db s"
    by (simp add: handleDismiss_def handleMarkAsHandled_def)
  have e: "\<forall>t \<in> set (scope_filter user selectedLocation
                  (db_list_active (tags_db (handleDismiss s)))).
            discardTime_tag t < now \<longrightarrow>
            ''expired_'' @ id_tag t
              \<in> id_ntf ` set (notifications
                    (checkForExpiringTags True user selectedLocation now (handleDismiss s)))"
  proof (intro ballI impI)
    fix t
    assume t: "t \<in> set (scope_filter user selectedLocation
                  (db_list_active (tags_db (handleDismiss s))))"
      and past: "discardTime_tag t < now"
    from past have "''expired_'' @ id_tag t \<in> id_ntf ` set (tag_notification now t)"
      using expired_id_in_tag_notification [of "id_tag t" now t] by blast
    with t show "''expired_'' @ id_tag t
        \<in> id_ntf ` set (notifications
              (checkForExpiringTags True user selectedLocation now (handleDismiss s)))"
      by (auto simp: checkForExpiringTags_def newNotifications_def)
  qed
  from a bc d e show ?thesis by blast
qed

theorem live_set_recomputed_each_poll_witness:
  "notifications (run (Some example_user) (Some example_location) [Tick True 300, Dismiss]
       (initial_state [example_tag ''tag_1'' 0 10 100])) = []
   \<and> map discardTime_tag (scope_filter (Some example_user) (Some example_location)
          (db_list_active (tags_db (run (Some example_user) (Some example_location)
             [Tick True 300, Dismiss] (initial_state [example_tag ''tag_1'' 0 10 100])))))
       = [100]
   \<and> (\<exists>t \<in> set (scope_filter (Some example_user) (Some example_location)
          (db_list_active (tags_db (run (Some example_user) (Some example_location)
             [Tick True 300, Dismiss] (initial_state [example_tag ''tag_1'' 0 10 100]))))).
        id_tag t = ''tag_1'' \<and> discardTime_tag t \<le> 400)
   \<and> ''expired_'' @ ''tag_1''
        \<in> id_ntf ` set (notifications (checkForExpiringTags True (Some example_user)
             (Some example_location) 400
             (run (Some example_user) (Some example_location) [Tick True 300, Dismiss]
                (initial_state [example_tag ''tag_1'' 0 10 100]))))"
proof -
  have off: "\<forall>t \<in> set (scope_filter (Some example_user) (Some example_location)
          (db_list_active (tags_db (run (Some example_user) (Some example_location)
             [Tick True 300, Dismiss] (initial_state [example_tag ''tag_1'' 0 10 100]))))).
        id_tag t = ''tag_1'' \<longrightarrow> discardTime_tag t \<noteq> 400"
    unfolding run_dismiss_one_expired
    by (simp add: scope_filter_def db_list_active_def example_user_def example_tag_def)
  have fetched: "\<exists>t \<in> set (scope_filter (Some example_user) (Some example_location)
          (db_list_active (tags_db (run (Some example_user) (Some example_location)
             [Tick True 300, Dismiss] (initial_state [example_tag ''tag_1'' 0 10 100]))))).
        id_tag t = ''tag_1'' \<and> discardTime_tag t \<le> 400"
    unfolding run_dismiss_one_expired
    by (simp add: scope_filter_def db_list_active_def example_user_def example_tag_def)
  have empty: "notifications (run (Some example_user) (Some example_location)
       [Tick True 300, Dismiss] (initial_state [example_tag ''tag_1'' 0 10 100])) = []"
    unfolding run_dismiss_one_expired by simp
  have times: "map discardTime_tag (scope_filter (Some example_user) (Some example_location)
          (db_list_active (tags_db (run (Some example_user) (Some example_location)
             [Tick True 300, Dismiss] (initial_state [example_tag ''tag_1'' 0 10 100])))))
       = [100]"
    unfolding run_dismiss_one_expired
    by (simp add: scope_filter_def db_list_active_def example_user_def example_tag_def)
  from off fetched empty times
    live_set_recomputed_each_poll [where user = "Some example_user"
      and selectedLocation = "Some example_location" and now = 400 and i = "''tag_1''"
      and s = "run (Some example_user) (Some example_location) [Tick True 300, Dismiss]
                (initial_state [example_tag ''tag_1'' 0 10 100])"]
  show ?thesis by blast
qed

end
